theory Spec2Isabelle
  imports Complex_Main
begin

section \<open>Numbers\<close>

text \<open>
  The program is TypeScript; its \<^verbatim>\<open>number\<close> values are modelled as mathematical reals
  (\<^typ>\<open>real\<close>), array lengths and loop counters as \<^typ>\<open>nat\<close>, and the results of
  \<^verbatim>\<open>Math.floor\<close> that are used as array subscripts as \<^typ>\<open>int\<close>. Rounding, NaN and
  the infinities of IEEE doubles are outside this model; where the source produces NaN by
  a division \<^verbatim>\<open>0 / 0\<close> the model says so explicitly with an \<^typ>\<open>'a option\<close>.
\<close>

text \<open>\<^verbatim>\<open>a || b\<close> on numbers: the left operand unless it is falsy, i.e. zero.\<close>

definition js_or :: "real \<Rightarrow> real \<Rightarrow> real" where
  "js_or a b = (if a = 0 then b else a)"

section \<open>BarVisualizer: logarithmic frequency bands\<close>

text \<open>
  \<^verbatim>\<open>const numBands = Math.max(4, Math.min(settings.numFrequencyBands || 8, 12));\<close>
\<close>

definition numBands :: "real \<Rightarrow> real" where
  "numBands numFrequencyBands = max 4 (min (js_or numFrequencyBands 8) 12)"

definition minFreq :: real where "minFreq = 20"
definition maxFreq :: real where "maxFreq = 20000"
definition nyquist :: real where "nyquist = 22050"
definition logMin :: real where "logMin = log 10 minFreq"
definition logMax :: real where "logMax = log 10 maxFreq"
definition logRange :: real where "logRange = logMax - logMin"

text \<open>
  The body of the loop \<^verbatim>\<open>for (let i = 0; i < numBands; i++)\<close>, with \<open>n\<close> for
  \<^verbatim>\<open>numBands\<close>:
  \<^verbatim>\<open>logFreq = logMin + (i / numBands) * logRange; freq = Math.pow(10, logFreq);\<close>
  \<^verbatim>\<open>binIndex = Math.floor((freq / nyquist) * (fftSize / 2));\<close>
  \<^verbatim>\<open>freqBins.push(Math.min(binIndex, fftSize - 1));\<close>
\<close>

definition logFreq :: "real \<Rightarrow> nat \<Rightarrow> real" where
  "logFreq n i = logMin + (real i / n) * logRange"

definition freq :: "real \<Rightarrow> nat \<Rightarrow> real" where
  "freq n i = 10 powr logFreq n i"

definition binIndex :: "real \<Rightarrow> nat \<Rightarrow> nat \<Rightarrow> int" where
  "binIndex n fftSize i = \<lfloor>(freq n i / nyquist) * (real fftSize / 2)\<rfloor>"

function freqBins_loop :: "nat \<Rightarrow> real \<Rightarrow> nat \<Rightarrow> int list \<Rightarrow> int list" where
  "freqBins_loop i n fftSize acc =
     (if real i < n
      then freqBins_loop (i + 1) n fftSize (acc @ [min (binIndex n fftSize i) (int fftSize - 1)])
      else acc)"
  by pat_completeness auto
termination
proof (relation "measure (\<lambda>(i, n, fftSize, acc). nat \<lceil>n\<rceil> - i)")
  show "wf (measure (\<lambda>(i, n, fftSize, acc). nat \<lceil>n\<rceil> - i))"
    by simp
next
  fix i :: nat and n :: real and fftSize :: nat and acc :: "int list"
  assume "real i < n"
  then have "i < nat \<lceil>n\<rceil>"
    by linarith
  then show "((i + 1, n, fftSize, acc @ [min (binIndex n fftSize i) (int fftSize - 1)]),
             (i, n, fftSize, acc)) \<in> measure (\<lambda>(i, n, fftSize, acc). nat \<lceil>n\<rceil> - i)"
    by simp
qed

definition freqBins :: "real \<Rightarrow> nat \<Rightarrow> int list" where
  "freqBins n fftSize = freqBins_loop 0 n fftSize []"

declare freqBins_loop.simps [simp del]

section \<open>BarVisualizer: drawing one bar\<close>

text \<open>
  \<^verbatim>\<open>const normalizedValue = (frequencyData[dataIndex] + 100) / 100;\<close>
  \<^verbatim>\<open>const barHeight = Math.max(2, normalizedValue * height * sensitivityScale);\<close>
  The argument \<open>db\<close> is the array element \<^verbatim>\<open>frequencyData[dataIndex]\<close>.
\<close>

definition normalizedValue :: "real \<Rightarrow> real" where
  "normalizedValue db = (db + 100) / 100"

definition barHeight :: "real \<Rightarrow> real \<Rightarrow> real \<Rightarrow> real" where
  "barHeight db h sensitivityScale = max 2 (normalizedValue db * h * sensitivityScale)"

text \<open>
  \<^verbatim>\<open>a % b\<close> on integers: the remainder has the sign of the dividend, and a zero divisor
  gives NaN (\<open>None\<close>).
\<close>

definition js_rem :: "int \<Rightarrow> int \<Rightarrow> int option" where
  "js_rem a b = (if b = 0 then None else Some (sgn a * (\<bar>a\<bar> mod \<bar>b\<bar>)))"

text \<open>
  \<^verbatim>\<open>const colorIndex = Math.floor((i / numBands) * colors.length);\<close>
  \<^verbatim>\<open>const color = colors[colorIndex % colors.length];\<close>
  Here \<open>n\<close> is \<^verbatim>\<open>numBands\<close> and the last argument is \<^verbatim>\<open>colors.length\<close>; \<open>bar_color_subscript\<close> is the subscript
  \<^verbatim>\<open>colorIndex % colors.length\<close>.
\<close>

definition bar_colorIndex :: "nat \<Rightarrow> real \<Rightarrow> nat \<Rightarrow> int" where
  "bar_colorIndex i n ncolors = \<lfloor>(real i / n) * real ncolors\<rfloor>"

definition bar_color_subscript :: "nat \<Rightarrow> real \<Rightarrow> nat \<Rightarrow> int option" where
  "bar_color_subscript i n ncolors = js_rem (bar_colorIndex i n ncolors) (int ncolors)"

section \<open>ParticleVisualizer and GeometricVisualizer: value-driven colour\<close>

text \<open>
  ParticleVisualizer:
  \<^verbatim>\<open>const audioValue = ((frequencyData[frequencyIndex] || -80) + 100) / 100;\<close>
  \<^verbatim>\<open>const colorIndex = Math.floor(audioValue * schemeColors.length);\<close>
  \<^verbatim>\<open>const color = schemeColors[Math.min(colorIndex, schemeColors.length - 1)];\<close>
\<close>

definition audioValue :: "real \<Rightarrow> real" where
  "audioValue db = (js_or db (- 80) + 100) / 100"

definition particle_colorIndex :: "real \<Rightarrow> nat \<Rightarrow> int" where
  "particle_colorIndex av ncolors = \<lfloor>av * real ncolors\<rfloor>"

definition particle_color_subscript :: "real \<Rightarrow> nat \<Rightarrow> int" where
  "particle_color_subscript av ncolors = min (particle_colorIndex av ncolors) (int ncolors - 1)"

text \<open>
  GeometricVisualizer, with \<open>average\<close> the mean normalized magnitude of the mesh's band:
  \<^verbatim>\<open>const colorIndex = Math.floor(average * colors.length);\<close>
  \<^verbatim>\<open>const color = colors[Math.min(colorIndex, colors.length - 1)];\<close>
\<close>

definition geometric_colorIndex :: "real \<Rightarrow> nat \<Rightarrow> int" where
  "geometric_colorIndex average ncolors = \<lfloor>average * real ncolors\<rfloor>"

definition geometric_color_subscript :: "real \<Rightarrow> nat \<Rightarrow> int" where
  "geometric_color_subscript average ncolors =
     min (geometric_colorIndex average ncolors) (int ncolors - 1)"

section \<open>VisualizationCanvas: byte magnitudes and colour\<close>

text \<open>
  The canvas component keeps its own magnitudes as bytes:
  \<^verbatim>\<open>frequencyData[i] = Math.min(255, Math.max(0, ((freqData[i] + 1) * 127.5)));\<close>
  stored into a \<^verbatim>\<open>Uint8Array\<close>, which drops the fraction of a value in \<open>[0, 255]\<close>;
  \<^verbatim>\<open>result[i] = Math.min(255, Math.max(0, Math.floor(data[i] * sensitivity)));\<close>
  and its draw routines divide a byte by 255:
  \<^verbatim>\<open>const intensity = data[dataIndex] / 255;\<close>
\<close>

definition frequencyByte :: "real \<Rightarrow> int" where
  "frequencyByte v = \<lfloor>min 255 (max 0 ((v + 1) * 127.5))\<rfloor>"

definition applySensitivity :: "int \<Rightarrow> real \<Rightarrow> int" where
  "applySensitivity d sens = min 255 (max 0 \<lfloor>real_of_int d * sens\<rfloor>)"

definition intensity :: "int \<Rightarrow> real" where
  "intensity d = real_of_int d / 255"

text \<open>
  \<^verbatim>\<open>drawBars\<close>:
  \<^verbatim>\<open>const colorIndex = Math.floor((i / numBars) * settings.colorScheme.colors.length);\<close>
  \<^verbatim>\<open>const primaryColor = settings.colorScheme.colors[colorIndex % settings.colorScheme.colors.length];\<close>
\<close>

definition drawBars_colorIndex :: "nat \<Rightarrow> real \<Rightarrow> nat \<Rightarrow> int" where
  "drawBars_colorIndex i numBars ncolors = \<lfloor>(real i / numBars) * real ncolors\<rfloor>"

definition drawBars_color_subscript :: "nat \<Rightarrow> real \<Rightarrow> nat \<Rightarrow> int option" where
  "drawBars_color_subscript i numBars ncolors =
     js_rem (drawBars_colorIndex i numBars ncolors) (int ncolors)"

text \<open>
  \<^verbatim>\<open>draw3DParticles\<close> and \<^verbatim>\<open>drawAsteroids2D\<close> use the index as the subscript:
  \<^verbatim>\<open>const colorIndex = Math.floor(intensity * (settings.colorScheme.colors.length - 1));\<close>
  \<^verbatim>\<open>const colorIndex = Math.floor(midHighIntensity * (settings.colorScheme.colors.length - 1));\<close>
  \<^verbatim>\<open>const color = settings.colorScheme.colors[colorIndex];\<close>
\<close>

definition draw3DParticles_colorIndex :: "real \<Rightarrow> nat \<Rightarrow> int" where
  "draw3DParticles_colorIndex v ncolors = \<lfloor>v * (real ncolors - 1)\<rfloor>"

definition drawAsteroids2D_colorIndex :: "real \<Rightarrow> nat \<Rightarrow> int" where
  "drawAsteroids2D_colorIndex midHighIntensity ncolors = \<lfloor>midHighIntensity * (real ncolors - 1)\<rfloor>"

text \<open>
  \<^verbatim>\<open>drawAsteroids3D\<close>, for a particle at depth \<open>z\<close>:
  \<^verbatim>\<open>const depthFactor = (p.z + 500) / 1000;\<close>
  \<^verbatim>\<open>const colorFactor = (depthFactor * 0.5) + (midHighIntensity * 0.5);\<close>
  \<^verbatim>\<open>const colorIndex = Math.floor(colorFactor * (settings.colorScheme.colors.length - 1));\<close>
\<close>

definition depthFactor :: "real \<Rightarrow> real" where
  "depthFactor z = (z + 500) / 1000"

definition colorFactor :: "real \<Rightarrow> real \<Rightarrow> real" where
  "colorFactor z midHighIntensity = (depthFactor z * 0.5) + (midHighIntensity * 0.5)"

definition drawAsteroids3D_colorIndex :: "real \<Rightarrow> real \<Rightarrow> nat \<Rightarrow> int" where
  "drawAsteroids3D_colorIndex z midHighIntensity ncolors =
     \<lfloor>colorFactor z midHighIntensity * (real ncolors - 1)\<rfloor>"

section \<open>WaveformVisualizer\<close>

text \<open>
  \<^verbatim>\<open>const numSamples = Math.max(128, Math.min(settings.wavelengthSize || 1024, 2048));\<close>
  \<^verbatim>\<open>const bufferLength = Math.min(waveformData.length, numSamples);\<close>
  \<^verbatim>\<open>const sliceWidth = width / bufferLength;\<close>
  \<^verbatim>\<open>const sensitivityScale = (sensitivity ?? 50) / 100;\<close>
\<close>

definition numSamples :: "real \<Rightarrow> real" where
  "numSamples wavelengthSize = max 128 (min (js_or wavelengthSize 1024) 2048)"

definition bufferLength :: "real \<Rightarrow> real list \<Rightarrow> real" where
  "bufferLength wavelengthSize waveformData =
     min (real (length waveformData)) (numSamples wavelengthSize)"

definition sliceWidth :: "real \<Rightarrow> real \<Rightarrow> real list \<Rightarrow> real" where
  "sliceWidth w wavelengthSize waveformData = w / bufferLength wavelengthSize waveformData"

definition sensitivityScale :: "real option \<Rightarrow> real" where
  "sensitivityScale sens = (case sens of None \<Rightarrow> 50 | Some v \<Rightarrow> v) / 100"

text \<open>
  The primary trace:
  \<^verbatim>\<open>const margin = 6; const maxAmplitude = (height / 2) - margin;\<close>
  \<^verbatim>\<open>const amplitude = maxAmplitude * sensitivityScale;\<close>
  \<^verbatim>\<open>const y = (height / 2) + Math.max(-maxAmplitude, Math.min(waveformData[i] * amplitude, maxAmplitude));\<close>
\<close>

definition margin :: real where "margin = 6"

definition maxAmplitude :: "real \<Rightarrow> real" where
  "maxAmplitude h = (h / 2) - margin"

definition amplitude :: "real \<Rightarrow> real option \<Rightarrow> real" where
  "amplitude h sens = maxAmplitude h * sensitivityScale sens"

definition primary_y :: "real \<Rightarrow> real option \<Rightarrow> real \<Rightarrow> real" where
  "primary_y h sens sample =
     (h / 2) + max (- maxAmplitude h) (min (sample * amplitude h sens) (maxAmplitude h))"

text \<open>
  The mirror effect, which reads \<^verbatim>\<open>sensitivity\<close> itself:
  \<^verbatim>\<open>const y = (height / 2) - (waveformData[i] * height / 2 * sensitivity);\<close>
\<close>

definition mirror_y :: "real \<Rightarrow> real \<Rightarrow> real \<Rightarrow> real" where
  "mirror_y h sens sample = (h / 2) - (sample * h / 2 * sens)"

text \<open>
  Both passes run \<^verbatim>\<open>for (let i = 0; i < bufferLength; i++)\<close> over the samples, that is
  over the first \<open>\<lceil>bufferLength\<rceil>\<close> of them, starting at \<^verbatim>\<open>x = 0\<close> and adding
  \<^verbatim>\<open>sliceWidth\<close> after each point; the points handed to \<^verbatim>\<open>moveTo\<close>/\<^verbatim>\<open>lineTo\<close> are
  collected in order.
\<close>

fun trace :: "(real \<Rightarrow> real) \<Rightarrow> real \<Rightarrow> real \<Rightarrow> real list \<Rightarrow> (real \<times> real) list" where
  "trace yf dx x [] = []"
| "trace yf dx x (sample # samples) = (x, yf sample) # trace yf dx (x + dx) samples"

definition primary_trace :: "real \<Rightarrow> real \<Rightarrow> real option \<Rightarrow> real \<Rightarrow> real list \<Rightarrow> (real \<times> real) list" where
  "primary_trace w h sens wavelengthSize waveformData =
     trace (primary_y h sens) (sliceWidth w wavelengthSize waveformData) 0
       (take (nat \<lceil>bufferLength wavelengthSize waveformData\<rceil>) waveformData)"

definition mirror_trace :: "real \<Rightarrow> real \<Rightarrow> real \<Rightarrow> real \<Rightarrow> real list \<Rightarrow> (real \<times> real) list" where
  "mirror_trace w h sens wavelengthSize waveformData =
     trace (mirror_y h sens) (sliceWidth w wavelengthSize waveformData) 0
       (take (nat \<lceil>bufferLength wavelengthSize waveformData\<rceil>) waveformData)"

section \<open>AudioService\<close>

text \<open>
  A method of the service either returns or throws; \<open>Inl\<close> is an exception that leaves the
  method, \<open>Inr\<close> its return value together with the service's state afterwards. Exceptions
  raised by the audio library inside a \<^verbatim>\<open>try\<close> block are the \<open>Inl\<close> results of the
  library reads below.
\<close>

datatype js_error = JsError string

datatype AudioSourceType = FILE | MICROPHONE | STREAM

record AudioSource =
  source_type :: AudioSourceType
  source_name :: string

text \<open>
  The analyser node of the audio library: its current \<^verbatim>\<open>type\<close>, and what
  \<^verbatim>\<open>getValue()\<close> delivers (or throws) in each of the two modes.
\<close>

datatype AnalyserType = FFT | WAVEFORM

record Analyser =
  atype :: AnalyserType
  fft_read :: "js_error + real list"
  waveform_read :: "js_error + real list"

record ToneAudioBuffer =
  duration :: real

record Player =
  buffer :: "ToneAudioBuffer option"
  offset :: real

record Volume =
  volume_value :: real

record AudioService =
  currentSource :: "AudioSource option"
  player :: "Player option"
  analyser :: "Analyser option"
  isPlaying :: bool
  volumeNode :: "Volume option"
  currentVolume :: real

text \<open>
  The constructor: the field initialisers, a fresh volume node, and
  \<^verbatim>\<open>createAnalyzer(-100, -30)\<close>, which keeps \<^verbatim>\<open>this.analyser\<close> at null when building the
  node throws. The argument is the outcome of \<^verbatim>\<open>new Tone.Analyser({type: 'fft', ...})\<close>.
\<close>

definition new_AudioService :: "js_error + Analyser \<Rightarrow> AudioService" where
  "new_AudioService built = \<lparr>
     currentSource = None,
     player = None,
     analyser = (case built of Inl e \<Rightarrow> None | Inr a \<Rightarrow> Some (a\<lparr>atype := FFT\<rparr>)),
     isPlaying = False,
     volumeNode = Some \<lparr>volume_value = 0\<rparr>,
     currentVolume = 1\<rparr>"

text \<open>What a method returned, without the state.\<close>

definition returned :: "js_error + ('a \<times> AudioService) \<Rightarrow> js_error + 'a" where
  "returned r = (case r of Inl e \<Rightarrow> Inl e | Inr (v, s) \<Rightarrow> Inr v)"

subsection \<open>setVolume\<close>

text \<open>
  \<^verbatim>\<open>const clampedVolume = Math.max(0, Math.min(1, volume));\<close>
  \<^verbatim>\<open>let decibelValue = -70; if (clampedVolume > 0) { decibelValue = 20 * Math.log10(clampedVolume); }\<close>
\<close>

definition clampedVolume :: "real \<Rightarrow> real" where
  "clampedVolume volume = max 0 (min 1 volume)"

definition decibelValue :: "real \<Rightarrow> real" where
  "decibelValue volume =
     (if clampedVolume volume > 0 then 20 * log 10 (clampedVolume volume) else - 70)"

definition setVolume :: "real \<Rightarrow> AudioService \<Rightarrow> js_error + AudioService" where
  "setVolume volume s =
     (case volumeNode s of
        None \<Rightarrow> Inr s
      | Some node \<Rightarrow>
          Inr (s\<lparr>currentVolume := clampedVolume volume,
                 volumeNode := Some (node\<lparr>volume_value := decibelValue volume\<rparr>)\<rparr>))"

subsection \<open>getDuration and seekTo\<close>

definition getDuration :: "AudioService \<Rightarrow> real option" where
  "getDuration s =
     (case player s of
        None \<Rightarrow> None
      | Some p \<Rightarrow> (case buffer p of None \<Rightarrow> None | Some b \<Rightarrow> Some (duration b)))"

text \<open>
  \<^verbatim>\<open>const duration = this.getDuration() || 0;\<close>
  \<^verbatim>\<open>const validPosition = Math.max(0, Math.min(seconds, duration));\<close>
\<close>

definition duration_or_0 :: "AudioService \<Rightarrow> real" where
  "duration_or_0 s = (case getDuration s of None \<Rightarrow> 0 | Some d \<Rightarrow> js_or d 0)"

definition validPosition :: "real \<Rightarrow> AudioService \<Rightarrow> real" where
  "validPosition seconds s = max 0 (min seconds (duration_or_0 s))"

text \<open>
  \<^verbatim>\<open>this.player.seek(validPosition)\<close> belongs to the audio library; it is the parameter
  \<open>seek\<close>, which gives the player after the seek or throws. A throw is caught and logged.
\<close>

definition seekTo ::
  "(real \<Rightarrow> Player \<Rightarrow> js_error + Player) \<Rightarrow> real \<Rightarrow> AudioService \<Rightarrow> js_error + AudioService" where
  "seekTo seek seconds s =
     (case player s of
        None \<Rightarrow> Inr s
      | Some p \<Rightarrow>
          (case seek (validPosition seconds s) p of
             Inl e \<Rightarrow> Inr s
           | Inr p' \<Rightarrow> Inr (s\<lparr>player := Some p'\<rparr>)))"

subsection \<open>getFrequencyData and getWaveformData\<close>

text \<open>
  \<^verbatim>\<open>if (!this.analyser) return null;\<close> then, inside \<^verbatim>\<open>try\<close>: switch the analyser to
  \<^verbatim>\<open>'fft'\<close> unless it is there already, read \<^verbatim>\<open>getValue()\<close> and return it; the
  \<^verbatim>\<open>catch\<close> returns null.
\<close>

definition getFrequencyData :: "AudioService \<Rightarrow> js_error + (real list option \<times> AudioService)" where
  "getFrequencyData s =
     (case analyser s of
        None \<Rightarrow> Inr (None, s)
      | Some a \<Rightarrow>
          (let a' = (if atype a \<noteq> FFT then a\<lparr>atype := FFT\<rparr> else a);
               s' = s\<lparr>analyser := Some a'\<rparr>
           in case fft_read a' of
                Inl e \<Rightarrow> Inr (None, s')
              | Inr data \<Rightarrow> Inr (Some data, s')))"

text \<open>
  \<^verbatim>\<open>getWaveformData\<close> switches to \<^verbatim>\<open>'waveform'\<close>, reads, and switches back to
  \<^verbatim>\<open>'fft'\<close>; when the read throws, the \<^verbatim>\<open>catch\<close> returns null and the switch back
  has not happened.
\<close>

definition getWaveformData :: "AudioService \<Rightarrow> js_error + (real list option \<times> AudioService)" where
  "getWaveformData s =
     (case analyser s of
        None \<Rightarrow> Inr (None, s)
      | Some a \<Rightarrow>
          (let a' = a\<lparr>atype := WAVEFORM\<rparr>
           in case waveform_read a' of
                Inl e \<Rightarrow> Inr (None, s\<lparr>analyser := Some a'\<rparr>)
              | Inr waveformData \<Rightarrow> Inr (Some waveformData, s\<lparr>analyser := Some (a'\<lparr>atype := FFT\<rparr>)\<rparr>)))"

subsection \<open>detectBeat\<close>

text \<open>
  \<^verbatim>\<open>const bassRange = frequencyData.slice(0, 10);\<close>
  \<^verbatim>\<open>const average = bassRange.reduce((sum, value) => sum + Math.abs(value), 0) / bassRange.length;\<close>
  \<^verbatim>\<open>return average > threshold;\<close>
  With an empty \<^verbatim>\<open>bassRange\<close> the quotient is \<^verbatim>\<open>0 / 0\<close>, NaN, here \<open>None\<close>; every
  comparison with NaN is false.
\<close>

definition bassRange :: "real list \<Rightarrow> real list" where
  "bassRange frequencyData = take 10 frequencyData"

definition average :: "real list \<Rightarrow> real option" where
  "average xs =
     (if length xs = 0 then None
      else Some (foldl (\<lambda>total v. total + \<bar>v\<bar>) 0 xs / real (length xs)))"

definition js_gt :: "real option \<Rightarrow> real \<Rightarrow> bool" where
  "js_gt a b = (case a of None \<Rightarrow> False | Some x \<Rightarrow> x > b)"

text \<open>The default parameter \<^verbatim>\<open>threshold: number = 0.15\<close>; \<open>None\<close> is an omitted argument.\<close>

definition threshold_or_default :: "real option \<Rightarrow> real" where
  "threshold_or_default threshold = (case threshold of None \<Rightarrow> 0.15 | Some t \<Rightarrow> t)"

definition detectBeat :: "real option \<Rightarrow> AudioService \<Rightarrow> js_error + (bool \<times> AudioService)" where
  "detectBeat threshold s =
     (case getFrequencyData s of
        Inl e \<Rightarrow> Inl e
      | Inr (None, s') \<Rightarrow> Inr (False, s')
      | Inr (Some frequencyData, s') \<Rightarrow>
          Inr (js_gt (average (bassRange frequencyData)) (threshold_or_default threshold), s'))"

text \<open>The mean of the absolute values of a non-empty list, as a sum divided by a count.\<close>

definition mean_abs :: "real list \<Rightarrow> real" where
  "mean_abs xs = (\<Sum>x\<leftarrow>xs. \<bar>x\<bar>) / real (length xs)"

section \<open>VisualizationProvider: the settings store\<close>

datatype VisualizationType =
  BARS_2D | WAVEFORM_2D | CIRCULAR | PARTICLES_3D | GEOMETRIC_3D | ASTEROIDS_2D | ASTEROIDS_3D

datatype CanvasOrientation = HORIZONTAL | VERTICAL

datatype FrameRate = Fps30 | Fps60

record ColorScheme =
  cs_id :: string
  cs_name :: string
  colors :: "string list"

record Resolution =
  res_width :: real
  res_height :: real

text \<open>The interface \<^verbatim>\<open>VisualizationSettings\<close>; its field \<^verbatim>\<open>type\<close> is \<open>vtype\<close> here.\<close>

record VisualizationSettings =
  wavelengthSize :: real
  numFrequencyBands :: real
  vtype :: VisualizationType
  visualizationType :: VisualizationType
  resolution :: Resolution
  width :: real
  height :: real
  orientation :: CanvasOrientation
  frameRate :: FrameRate
  colorScheme :: ColorScheme
  sensitivity :: real
  showControls :: bool
  isSimpleMode :: bool
  barWidth :: real
  barSpacing :: real
  amplification :: real
  primaryColor :: string
  secondaryColor :: string
  useGradient :: bool
  lineWidth :: real
  useGlow :: bool
  glowIntensity :: real
  useRotation :: bool
  rotationSpeed :: real

text \<open>
  \<^verbatim>\<open>Partial<VisualizationSettings>\<close>: every field may be absent (\<open>None\<close>).
\<close>

record PartialSettings =
  p_wavelengthSize :: "real option"
  p_numFrequencyBands :: "real option"
  p_vtype :: "VisualizationType option"
  p_visualizationType :: "VisualizationType option"
  p_resolution :: "Resolution option"
  p_width :: "real option"
  p_height :: "real option"
  p_orientation :: "CanvasOrientation option"
  p_frameRate :: "FrameRate option"
  p_colorScheme :: "ColorScheme option"
  p_sensitivity :: "real option"
  p_showControls :: "bool option"
  p_isSimpleMode :: "bool option"
  p_barWidth :: "real option"
  p_barSpacing :: "real option"
  p_amplification :: "real option"
  p_primaryColor :: "string option"
  p_secondaryColor :: "string option"
  p_useGradient :: "bool option"
  p_lineWidth :: "real option"
  p_useGlow :: "bool option"
  p_glowIntensity :: "real option"
  p_useRotation :: "bool option"
  p_rotationSpeed :: "real option"

text \<open>The object spread \<^verbatim>\<open>{ ...prev, ...updates }\<close>: a field of \<open>updates\<close> wins where present.\<close>

definition spread :: "VisualizationSettings \<Rightarrow> PartialSettings \<Rightarrow> VisualizationSettings" where
  "spread prev updates = \<lparr>
     wavelengthSize = (case p_wavelengthSize updates of None \<Rightarrow> wavelengthSize prev | Some v \<Rightarrow> v),
     numFrequencyBands = (case p_numFrequencyBands updates of None \<Rightarrow> numFrequencyBands prev | Some v \<Rightarrow> v),
     vtype = (case p_vtype updates of None \<Rightarrow> vtype prev | Some v \<Rightarrow> v),
     visualizationType = (case p_visualizationType updates of None \<Rightarrow> visualizationType prev | Some v \<Rightarrow> v),
     resolution = (case p_resolution updates of None \<Rightarrow> resolution prev | Some v \<Rightarrow> v),
     width = (case p_width updates of None \<Rightarrow> width prev | Some v \<Rightarrow> v),
     height = (case p_height updates of None \<Rightarrow> height prev | Some v \<Rightarrow> v),
     orientation = (case p_orientation updates of None \<Rightarrow> orientation prev | Some v \<Rightarrow> v),
     frameRate = (case p_frameRate updates of None \<Rightarrow> frameRate prev | Some v \<Rightarrow> v),
     colorScheme = (case p_colorScheme updates of None \<Rightarrow> colorScheme prev | Some v \<Rightarrow> v),
     sensitivity = (case p_sensitivity updates of None \<Rightarrow> sensitivity prev | Some v \<Rightarrow> v),
     showControls = (case p_showControls updates of None \<Rightarrow> showControls prev | Some v \<Rightarrow> v),
     isSimpleMode = (case p_isSimpleMode updates of None \<Rightarrow> isSimpleMode prev | Some v \<Rightarrow> v),
     barWidth = (case p_barWidth updates of None \<Rightarrow> barWidth prev | Some v \<Rightarrow> v),
     barSpacing = (case p_barSpacing updates of None \<Rightarrow> barSpacing prev | Some v \<Rightarrow> v),
     amplification = (case p_amplification updates of None \<Rightarrow> amplification prev | Some v \<Rightarrow> v),
     primaryColor = (case p_primaryColor updates of None \<Rightarrow> primaryColor prev | Some v \<Rightarrow> v),
     secondaryColor = (case p_secondaryColor updates of None \<Rightarrow> secondaryColor prev | Some v \<Rightarrow> v),
     useGradient = (case p_useGradient updates of None \<Rightarrow> useGradient prev | Some v \<Rightarrow> v),
     lineWidth = (case p_lineWidth updates of None \<Rightarrow> lineWidth prev | Some v \<Rightarrow> v),
     useGlow = (case p_useGlow updates of None \<Rightarrow> useGlow prev | Some v \<Rightarrow> v),
     glowIntensity = (case p_glowIntensity updates of None \<Rightarrow> glowIntensity prev | Some v \<Rightarrow> v),
     useRotation = (case p_useRotation updates of None \<Rightarrow> useRotation prev | Some v \<Rightarrow> v),
     rotationSpeed = (case p_rotationSpeed updates of None \<Rightarrow> rotationSpeed prev | Some v \<Rightarrow> v)\<rparr>"

definition no_updates :: PartialSettings where
  "no_updates = \<lparr>
     p_wavelengthSize = None,
     p_numFrequencyBands = None,
     p_vtype = None,
     p_visualizationType = None,
     p_resolution = None,
     p_width = None,
     p_height = None,
     p_orientation = None,
     p_frameRate = None,
     p_colorScheme = None,
     p_sensitivity = None,
     p_showControls = None,
     p_isSimpleMode = None,
     p_barWidth = None,
     p_barSpacing = None,
     p_amplification = None,
     p_primaryColor = None,
     p_secondaryColor = None,
     p_useGradient = None,
     p_lineWidth = None,
     p_useGlow = None,
     p_glowIntensity = None,
     p_useRotation = None,
     p_rotationSpeed = None\<rparr>"

record Preset =
  preset_id :: string
  preset_name :: string
  preset_settings :: VisualizationSettings

record Provider =
  settings :: VisualizationSettings
  presets :: "Preset list"
  colorSchemes :: "ColorScheme list"

definition defaultColorSchemes :: "ColorScheme list" where
  "defaultColorSchemes = [
     \<lparr>cs_id = ''default'', cs_name = ''Default'',
      colors = [''#ff0000'', ''#00ff00'', ''#0000ff'', ''#ffff00'', ''#00ffff'', ''#ff00ff'']\<rparr>,
     \<lparr>cs_id = ''neon'', cs_name = ''Neon'',
      colors = [''#ff00ff'', ''#00ffff'', ''#ffff00'', ''#ff00aa'', ''#aa00ff'', ''#00ff99'']\<rparr>,
     \<lparr>cs_id = ''monochrome'', cs_name = ''Monochrome'',
      colors = [''#ffffff'', ''#dddddd'', ''#bbbbbb'', ''#999999'', ''#777777'', ''#555555'']\<rparr>,
     \<lparr>cs_id = ''sunset'', cs_name = ''Sunset'',
      colors = [''#ff7700'', ''#ff5500'', ''#ff0077'', ''#ffaa00'', ''#ff0000'', ''#ff9900'']\<rparr>]"

definition defaultSettings :: VisualizationSettings where
  "defaultSettings = \<lparr>
     wavelengthSize = 1024,
     numFrequencyBands = 8,
     vtype = BARS_2D,
     visualizationType = BARS_2D,
     resolution = \<lparr>res_width = 1280, res_height = 720\<rparr>,
     width = 1280,
     height = 720,
     orientation = HORIZONTAL,
     frameRate = Fps60,
     colorScheme = \<lparr>cs_id = ''default'', cs_name = ''Default'',
       colors = [''#ff0000'', ''#00ff00'', ''#0000ff'', ''#ffff00'', ''#00ffff'', ''#ff00ff'']\<rparr>,
     sensitivity = 1.0,
     showControls = True,
     isSimpleMode = True,
     barWidth = 5,
     barSpacing = 2,
     amplification = 1.5,
     primaryColor = ''#ff0000'',
     secondaryColor = ''#00ff00'',
     useGradient = True,
     lineWidth = 2,
     useGlow = False,
     glowIntensity = 5,
     useRotation = False,
     rotationSpeed = 0.5\<rparr>"

text \<open>The three \<^verbatim>\<open>useState\<close> cells of the provider at mount.\<close>

definition initial_Provider :: Provider where
  "initial_Provider = \<lparr>settings = defaultSettings, presets = [], colorSchemes = defaultColorSchemes\<rparr>"

text \<open>\<^verbatim>\<open>setSettings(prev => ({ ...prev, ...updates }))\<close>\<close>

definition updateSettings :: "PartialSettings \<Rightarrow> Provider \<Rightarrow> Provider" where
  "updateSettings updates st = st\<lparr>settings := spread (settings st) updates\<rparr>"

text \<open>
  \<^verbatim>\<open>savePreset\<close> appends a copy of the current settings under the id
  \<^verbatim>\<open>`preset-${Date.now()}`\<close>; \<open>now\<close> is the clock reading as printed in the id.
\<close>

definition savePreset :: "string \<Rightarrow> string \<Rightarrow> Provider \<Rightarrow> Provider" where
  "savePreset name now st =
     st\<lparr>presets := presets st @
        [\<lparr>preset_id = ''preset-'' @ now, preset_name = name, preset_settings = settings st\<rparr>]\<rparr>"

text \<open>
  \<^verbatim>\<open>const preset = presets.find(p => p.id === presetId); if (preset) { setSettings(preset.settings); }\<close>
\<close>

definition loadPreset :: "string \<Rightarrow> Provider \<Rightarrow> Provider" where
  "loadPreset presetId st =
     (case find (\<lambda>p. preset_id p = presetId) (presets st) of
        None \<Rightarrow> st
      | Some preset \<Rightarrow> st\<lparr>settings := preset_settings preset\<rparr>)"

definition addColorScheme :: "string \<Rightarrow> string list \<Rightarrow> string \<Rightarrow> Provider \<Rightarrow> Provider" where
  "addColorScheme name cols now st =
     st\<lparr>colorSchemes := colorSchemes st @
        [\<lparr>cs_id = ''scheme-'' @ now, cs_name = name, colors = cols\<rparr>]\<rparr>"

section \<open>Concrete analysers, players and stores\<close>

text \<open>
  Values on which the properties below are evaluated: an analyser that reads a steady
  \<open>-80\<close> dB spectrum, one that reads near the \<open>-100\<close> dB floor, one whose buffers are empty,
  one whose reads throw, and a library \<open>seek\<close> that moves the player and one that throws.
\<close>

definition bass_analyser :: Analyser where
  "bass_analyser = \<lparr>atype = FFT,
     fft_read = Inr [- 80, - 80, - 80, - 80, - 80, - 80, - 80, - 80, - 80, - 80, - 80, - 80],
     waveform_read = Inr [1 / 2, - 1 / 2, 1 / 4, - 1 / 4]\<rparr>"

definition idle_analyser :: Analyser where
  "idle_analyser = \<lparr>atype = FFT, fft_read = Inr [- 100, - 100, - 100, - 100],
     waveform_read = Inr [0, 0, 0, 0]\<rparr>"

definition empty_analyser :: Analyser where
  "empty_analyser = \<lparr>atype = FFT, fft_read = Inr [], waveform_read = Inr []\<rparr>"

definition broken_analyser :: Analyser where
  "broken_analyser = \<lparr>atype = FFT, fft_read = Inl (JsError ''InvalidStateError''),
     waveform_read = Inl (JsError ''InvalidStateError'')\<rparr>"

definition seek_moves :: "real \<Rightarrow> Player \<Rightarrow> js_error + Player" where
  "seek_moves position p = Inr (p\<lparr>offset := position\<rparr>)"

definition seek_throws :: "real \<Rightarrow> Player \<Rightarrow> js_error + Player" where
  "seek_throws position p = Inl (JsError ''buffer is not loaded'')"

text \<open>A service after a file of 180 seconds has been loaded.\<close>

definition file_service :: AudioService where
  "file_service = (new_AudioService (Inr bass_analyser))\<lparr>
     currentSource := Some \<lparr>source_type = FILE, source_name = ''song.mp3''\<rparr>,
     player := Some \<lparr>buffer = Some \<lparr>duration = 180\<rparr>, offset = 0\<rparr>\<rparr>"

text \<open>
  A service whose player holds a track of 10 seconds, and one whose player has no buffer.
\<close>

definition short_service :: AudioService where
  "short_service = (new_AudioService (Inr bass_analyser))\<lparr>
     currentSource := Some \<lparr>source_type = STREAM, source_name = ''Audio Stream''\<rparr>,
     player := Some \<lparr>buffer = Some \<lparr>duration = 10\<rparr>, offset = 0\<rparr>\<rparr>"

definition bufferless_service :: AudioService where
  "bufferless_service = (new_AudioService (Inr bass_analyser))\<lparr>
     currentSource := Some \<lparr>source_type = STREAM, source_name = ''Audio Stream''\<rparr>,
     player := Some \<lparr>buffer = None, offset = 0\<rparr>\<rparr>"

text \<open>
  A store in which a preset was saved under the default settings and the sensitivity was
  then set to 50.
\<close>

definition store_with_preset :: Provider where
  "store_with_preset =
     updateSettings (no_updates\<lparr>p_sensitivity := Some 50\<rparr>)
       (savePreset ''quiet'' ''1700000000000'' initial_Provider)"

section \<open>Properties of the frequency bands\<close>

lemma logRange_pos: "0 < logRange"
  by (simp add: logRange_def logMax_def logMin_def maxFreq_def minFreq_def)

lemma freqBins_loop_eq:
  "i \<le> N \<Longrightarrow> freqBins_loop i (real N) fftSize acc =
     acc @ map (\<lambda>k. min (binIndex (real N) fftSize k) (int fftSize - 1)) [i..<N]"
proof (induction "N - i" arbitrary: i acc)
  case 0
  then have "i = N" by simp
  then show ?case by (subst freqBins_loop.simps) simp
next
  case (Suc d)
  then have lt: "i < N" by simp
  then have "freqBins_loop i (real N) fftSize acc =
      freqBins_loop (i + 1) (real N) fftSize
        (acc @ [min (binIndex (real N) fftSize i) (int fftSize - 1)])"
    by (subst freqBins_loop.simps) simp
  also have "\<dots> = (acc @ [min (binIndex (real N) fftSize i) (int fftSize - 1)]) @
      map (\<lambda>k. min (binIndex (real N) fftSize k) (int fftSize - 1)) [i + 1..<N]"
    using Suc.hyps(2) lt by (intro Suc.hyps(1)) simp_all
  also have "\<dots> = acc @ map (\<lambda>k. min (binIndex (real N) fftSize k) (int fftSize - 1)) [i..<N]"
    using lt by (simp add: upt_conv_Cons)
  finally show ?case .
qed

lemma freqBins_eq:
  "freqBins (real N) fftSize =
     map (\<lambda>k. min (binIndex (real N) fftSize k) (int fftSize - 1)) [0..<N]"
  by (simp add: freqBins_def freqBins_loop_eq)

lemma freq_pos: "0 < freq n i"
  by (simp add: freq_def)

lemma freq_strict_mono: "0 < n \<Longrightarrow> i < j \<Longrightarrow> freq n i < freq n j"
  using logRange_pos
  by (simp add: freq_def logFreq_def divide_strict_right_mono)

lemma freq_unfolded:
  "freq n i = 10 powr (log 10 20 + (real i / n) * (log 10 20000 - log 10 20))"
  by (simp add: freq_def logFreq_def logRange_def logMax_def logMin_def maxFreq_def minFreq_def)

lemma binIndex_nonneg: "0 \<le> binIndex n fftSize i"
  using freq_pos [of n i] by (simp add: binIndex_def nyquist_def)

lemma numBands_id: "4 \<le> N \<Longrightarrow> N \<le> 12 \<Longrightarrow> numBands (real N) = real N"
  by (simp add: numBands_def js_or_def)

text \<open>
  Claim C1. For a band count \<open>N\<close> between 4 and 12 and a non-empty magnitude array of
  length \<open>fftSize\<close>, the bar mode keeps \<open>N\<close> as its number of bands and computes exactly
  \<open>N\<close> bin indices; band \<open>i\<close> has the centre frequency
  \<open>10 powr (log 10 20 + (i / N) * (log 10 20000 - log 10 20))\<close>, the centre frequencies
  increase strictly with \<open>i\<close>, and each stored bin index is
  \<open>\<lfloor>freq / 22050 * (fftSize / 2)\<rfloor>\<close> capped at \<open>fftSize - 1\<close> and lies between \<open>0\<close> and
  \<open>fftSize - 1\<close>.
\<close>

theorem C1_frequency_bands:
  assumes "4 \<le> N" and "N \<le> 12" and "0 < fftSize"
  shows "numBands (real N) = real N \<and>
         length (freqBins (numBands (real N)) fftSize) = N \<and>
         (\<forall>i < N. freq (real N) i =
                     10 powr (log 10 20 + (real i / real N) * (log 10 20000 - log 10 20))) \<and>
         (\<forall>i j. i < j \<and> j < N \<longrightarrow> freq (real N) i < freq (real N) j) \<and>
         (\<forall>i < N. freqBins (numBands (real N)) fftSize ! i =
                     min \<lfloor>(freq (real N) i / 22050) * (real fftSize / 2)\<rfloor> (int fftSize - 1) \<and>
                   0 \<le> freqBins (numBands (real N)) fftSize ! i \<and>
                   freqBins (numBands (real N)) fftSize ! i \<le> int fftSize - 1)"
proof -
  have nb: "numBands (real N) = real N" using assms by (simp add: numBands_id)
  have len: "length (freqBins (real N) fftSize) = N" by (simp add: freqBins_eq)
  have Npos: "0 < real N" using assms by simp
  have mono: "\<forall>i j. i < j \<and> j < N \<longrightarrow> freq (real N) i < freq (real N) j"
    using freq_strict_mono [OF Npos] by blast
  have bins: "\<forall>i < N. freqBins (real N) fftSize ! i =
                     min \<lfloor>(freq (real N) i / 22050) * (real fftSize / 2)\<rfloor> (int fftSize - 1) \<and>
                   0 \<le> freqBins (real N) fftSize ! i \<and>
                   freqBins (real N) fftSize ! i \<le> int fftSize - 1"
  proof (intro allI impI)
    fix i assume "i < N"
    then have eq: "freqBins (real N) fftSize ! i = min (binIndex (real N) fftSize i) (int fftSize - 1)"
      by (simp add: freqBins_eq)
    have "0 \<le> min (binIndex (real N) fftSize i) (int fftSize - 1)"
      using binIndex_nonneg [of "real N" fftSize i] assms(3) by simp
    with eq show "freqBins (real N) fftSize ! i =
                     min \<lfloor>(freq (real N) i / 22050) * (real fftSize / 2)\<rfloor> (int fftSize - 1) \<and>
                   0 \<le> freqBins (real N) fftSize ! i \<and>
                   freqBins (real N) fftSize ! i \<le> int fftSize - 1"
      by (simp add: binIndex_def nyquist_def)
  qed
  have fu: "\<forall>i < N. freq (real N) i =
      10 powr (log 10 20 + (real i / real N) * (log 10 20000 - log 10 20))"
    using freq_unfolded by blast
  show ?thesis
    unfolding nb using len fu mono bins by blast
qed

theorem C1_frequency_bands_witness:
  "numBands 8 = 8 \<and> length (freqBins (numBands 8) 1024) = 8 \<and> freq 8 2 < freq 8 3 \<and>
   0 \<le> freqBins (numBands 8) 1024 ! 7 \<and> freqBins (numBands 8) 1024 ! 7 \<le> 1023"
proof -
  have h1: "(4::nat) \<le> 8" and h2: "(8::nat) \<le> 12" and h3: "(0::nat) < 1024" by simp_all
  have r8: "real (8::nat) = 8" by simp
  note c = C1_frequency_bands [OF h1 h2 h3, unfolded r8]
  from c have a: "numBands 8 = 8" by (rule conjunct1)
  from c have b: "length (freqBins (numBands 8) 1024) = 8" by (elim conjE)
  from c have m: "\<forall>i j. i < j \<and> j < (8::nat) \<longrightarrow> freq 8 i < freq 8 j" by (elim conjE)
  from c have r: "\<forall>i < (8::nat). freqBins (numBands 8) 1024 ! i =
                     min \<lfloor>(freq 8 i / 22050) * (real (1024::nat) / 2)\<rfloor> (int 1024 - 1) \<and>
                   0 \<le> freqBins (numBands 8) 1024 ! i \<and>
                   freqBins (numBands 8) 1024 ! i \<le> int 1024 - 1" by (elim conjE)
  have m23: "(2::nat) < 3 \<and> (3::nat) < 8" by simp
  have f: "freq 8 2 < freq 8 3" using m m23 by blast
  have "(7::nat) < 8" by simp
  with r have "0 \<le> freqBins (numBands 8) 1024 ! 7 \<and> freqBins (numBands 8) 1024 ! 7 \<le> int 1024 - 1"
    by blast
  then have g: "0 \<le> freqBins (numBands 8) 1024 ! 7 \<and> freqBins (numBands 8) 1024 ! 7 \<le> 1023"
    by simp
  show ?thesis using a b f g by blast
qed

section \<open>Properties of the magnitude normalization\<close>

text \<open>
  On the nominal range the normalization of the standalone visualizers stays in the unit
  interval, and the canvas component's byte magnitudes give an intensity in the unit
  interval for every input, because they are clamped before the division.
\<close>

lemma normalizedValue_nominal:
  "- 100 \<le> db \<Longrightarrow> db \<le> 0 \<Longrightarrow> 0 \<le> normalizedValue db \<and> normalizedValue db \<le> 1"
  by (simp add: normalizedValue_def)

lemma normalizedValue_ends: "normalizedValue (- 100) = 0 \<and> normalizedValue 0 = 1"
  by (simp add: normalizedValue_def)

lemma canvas_intensity_unit:
  "0 \<le> intensity (applySensitivity (frequencyByte v) sens) \<and>
   intensity (applySensitivity (frequencyByte v) sens) \<le> 1"
  by (simp add: intensity_def applySensitivity_def)

text \<open>
  Claim C2 at failing inputs. A magnitude of \<open>-150\<close> dB is normalized to \<open>-1/2\<close> by the bar
  mode and by the particle mode, outside \<open>[0, 1]\<close>; with six colours the particle mode then
  computes the colour subscript \<open>-3\<close>, which no palette has. A magnitude of \<open>0\<close> dB is
  normalized to \<open>1\<close> by the bar mode but to \<open>1/5\<close> by the particle mode, whose
  \<^verbatim>\<open>|| -80\<close> takes \<open>0\<close> for a missing value.
\<close>

theorem C2_normalization_escapes:
  "normalizedValue (- 150) = - 1 / 2 \<and> audioValue (- 150) = - 1 / 2 \<and>
   \<not> (0 \<le> normalizedValue (- 150) \<and> normalizedValue (- 150) \<le> 1) \<and>
   \<not> (0 \<le> audioValue (- 150) \<and> audioValue (- 150) \<le> 1) \<and>
   particle_color_subscript (audioValue (- 150)) 6 = - 3 \<and>
   normalizedValue 0 = 1 \<and> audioValue 0 = 1 / 5"
  by (simp add: normalizedValue_def audioValue_def js_or_def
      particle_color_subscript_def particle_colorIndex_def)

section \<open>Properties of the analyser reads and of beat detection\<close>

lemma foldl_abs_sum: "foldl (\<lambda>total v. total + \<bar>v\<bar>) (a::real) xs = a + (\<Sum>x\<leftarrow>xs. \<bar>x\<bar>)"
  by (induction xs arbitrary: a) simp_all

lemma average_mean_abs: "xs \<noteq> [] \<Longrightarrow> average xs = Some (mean_abs xs)"
  by (simp add: average_def mean_abs_def foldl_abs_sum)

lemma average_empty: "average [] = None"
  by (simp add: average_def)

lemma js_gt_average:
  "js_gt (average (bassRange fd)) t \<longleftrightarrow> fd \<noteq> [] \<and> mean_abs (take 10 fd) > t"
proof (cases "fd = []")
  case True
  then show ?thesis by (simp add: bassRange_def average_empty js_gt_def)
next
  case False
  then have "take 10 fd \<noteq> []" by simp
  then show ?thesis
    using False by (simp add: bassRange_def average_mean_abs js_gt_def)
qed

lemma getFrequencyData_returns:
  "\<exists>r s'. getFrequencyData s = Inr (r, s')"
  by (simp add: getFrequencyData_def Let_def split: option.splits sum.splits)

lemma detectBeat_eq:
  assumes "getFrequencyData s = Inr (r, s')"
  shows "detectBeat threshold s =
     Inr ((\<exists>fd. r = Some fd \<and> fd \<noteq> [] \<and> mean_abs (take 10 fd) > threshold_or_default threshold), s')"
  using assms by (cases r) (simp_all add: detectBeat_def js_gt_average)

lemma getFrequencyData_new:
  "getFrequencyData (new_AudioService (Inr bass_analyser)) =
     Inr (Some [- 80, - 80, - 80, - 80, - 80, - 80, - 80, - 80, - 80, - 80, - 80, - 80],
          new_AudioService (Inr bass_analyser))"
  "getFrequencyData (new_AudioService (Inr empty_analyser)) =
     Inr (Some [], new_AudioService (Inr empty_analyser))"
  "getFrequencyData (new_AudioService (Inr broken_analyser)) =
     Inr (None, new_AudioService (Inr broken_analyser))"
  "getFrequencyData (new_AudioService (Inl e)) = Inr (None, new_AudioService (Inl e))"
  by (simp_all add: getFrequencyData_def new_AudioService_def bass_analyser_def
      empty_analyser_def broken_analyser_def)

text \<open>
  Claim C3. \<open>detectBeat\<close> never throws, and it returns true exactly when the frequency
  data is present, is not of length zero, and the mean of the absolute values of its first
  ten entries exceeds the threshold, which is \<open>0.15\<close> when the argument is omitted. So with
  null or zero-length frequency data it returns false.
\<close>

theorem C3_detectBeat:
  "\<exists>r s'. getFrequencyData s = Inr (r, s') \<and>
     detectBeat threshold s =
       Inr ((\<exists>fd. r = Some fd \<and> fd \<noteq> [] \<and>
               mean_abs (take 10 fd) > (case threshold of None \<Rightarrow> 0.15 | Some t \<Rightarrow> t)), s')"
proof -
  obtain r s' where g: "getFrequencyData s = Inr (r, s')"
    using getFrequencyData_returns by blast
  show ?thesis
    using detectBeat_eq [OF g, of threshold] g by (auto simp add: threshold_or_default_def)
qed

theorem C3_detectBeat_witness:
  "returned (detectBeat None (new_AudioService (Inr bass_analyser))) = Inr True \<and>
   returned (detectBeat (Some 90) (new_AudioService (Inr bass_analyser))) = Inr False \<and>
   returned (detectBeat None (new_AudioService (Inr empty_analyser))) = Inr False \<and>
   returned (detectBeat None (new_AudioService (Inr broken_analyser))) = Inr False \<and>
   returned (detectBeat None (new_AudioService (Inl (JsError ''no analyser'')))) = Inr False"
proof -
  have a: "returned (detectBeat None (new_AudioService (Inr bass_analyser))) = Inr True"
    using C3_detectBeat [of "new_AudioService (Inr bass_analyser)" None]
    by (auto simp add: getFrequencyData_new returned_def mean_abs_def)
  have b: "returned (detectBeat (Some 90) (new_AudioService (Inr bass_analyser))) = Inr False"
    using C3_detectBeat [of "new_AudioService (Inr bass_analyser)" "Some 90"]
    by (auto simp add: getFrequencyData_new returned_def mean_abs_def)
  have c: "returned (detectBeat None (new_AudioService (Inr empty_analyser))) = Inr False"
    using C3_detectBeat [of "new_AudioService (Inr empty_analyser)" None]
    by (auto simp add: getFrequencyData_new returned_def)
  have d: "returned (detectBeat None (new_AudioService (Inr broken_analyser))) = Inr False"
    using C3_detectBeat [of "new_AudioService (Inr broken_analyser)" None]
    by (auto simp add: getFrequencyData_new returned_def)
  have e: "returned (detectBeat None (new_AudioService (Inl (JsError ''no analyser'')))) = Inr False"
    using C3_detectBeat [of "new_AudioService (Inl (JsError ''no analyser''))" None]
    by (auto simp add: getFrequencyData_new returned_def)
  show ?thesis using a b c d e by blast
qed

text \<open>
  Claim C4. When two services read the same frequency data, \<open>detectBeat\<close> with the same
  threshold returns the same boolean on both; and on one service, a beat at a threshold
  \<open>t2\<close> is a beat at every threshold \<open>t1 \<le> t2\<close>.
\<close>

theorem C4_detectBeat_antitone:
  "(returned (getFrequencyData s1) = returned (getFrequencyData s2) \<longrightarrow>
      returned (detectBeat threshold s1) = returned (detectBeat threshold s2)) \<and>
   (t1 \<le> t2 \<longrightarrow> returned (detectBeat (Some t2) s) = Inr True \<longrightarrow>
      returned (detectBeat (Some t1) s) = Inr True)"
proof (intro conjI impI)
  assume eq: "returned (getFrequencyData s1) = returned (getFrequencyData s2)"
  obtain r1 s1' where g1: "getFrequencyData s1 = Inr (r1, s1')"
    using getFrequencyData_returns by blast
  obtain r2 s2' where g2: "getFrequencyData s2 = Inr (r2, s2')"
    using getFrequencyData_returns by blast
  from eq g1 g2 have "r1 = r2" by (simp add: returned_def)
  then show "returned (detectBeat threshold s1) = returned (detectBeat threshold s2)"
    using detectBeat_eq [OF g1, of threshold] detectBeat_eq [OF g2, of threshold]
    by (simp add: returned_def)
next
  assume le: "t1 \<le> t2" and b2: "returned (detectBeat (Some t2) s) = Inr True"
  obtain r s' where g: "getFrequencyData s = Inr (r, s')"
    using getFrequencyData_returns by blast
  from b2 detectBeat_eq [OF g, of "Some t2"]
  obtain fd where fd: "r = Some fd" "fd \<noteq> []" "mean_abs (take 10 fd) > t2"
    by (auto simp add: returned_def threshold_or_default_def)
  then have "mean_abs (take 10 fd) > t1" using le by simp
  then show "returned (detectBeat (Some t1) s) = Inr True"
    using detectBeat_eq [OF g, of "Some t1"] fd by (simp add: returned_def threshold_or_default_def)
qed

lemma detectBeat_bass_60:
  "returned (detectBeat (Some 60) (new_AudioService (Inr bass_analyser))) = Inr True"
  using detectBeat_eq [OF getFrequencyData_new(1), of "Some 60"]
  by (simp add: returned_def threshold_or_default_def mean_abs_def)

lemma getFrequencyData_file_service:
  "returned (getFrequencyData file_service) =
   returned (getFrequencyData (new_AudioService (Inr bass_analyser)))"
  by (simp add: getFrequencyData_def file_service_def new_AudioService_def bass_analyser_def
      returned_def)

theorem C4_detectBeat_antitone_witness:
  "returned (getFrequencyData file_service) =
     returned (getFrequencyData (new_AudioService (Inr bass_analyser))) \<and>
   returned (detectBeat (Some 60) file_service) =
     returned (detectBeat (Some 60) (new_AudioService (Inr bass_analyser))) \<and>
   (1 / 10 :: real) \<le> 60 \<and>
   returned (detectBeat (Some 60) (new_AudioService (Inr bass_analyser))) = Inr True \<and>
   returned (detectBeat (Some (1 / 10)) (new_AudioService (Inr bass_analyser))) = Inr True"
proof -
  have le: "(1 / 10 :: real) \<le> 60" by simp
  note c = C4_detectBeat_antitone [of file_service "new_AudioService (Inr bass_analyser)"
      "Some 60" "1 / 10" 60 "new_AudioService (Inr bass_analyser)"]
  have a: "returned (detectBeat (Some 60) file_service) =
     returned (detectBeat (Some 60) (new_AudioService (Inr bass_analyser)))"
    using c getFrequencyData_file_service by blast
  have b: "returned (detectBeat (Some (1 / 10)) (new_AudioService (Inr bass_analyser))) = Inr True"
    using c le detectBeat_bass_60 by blast
  show ?thesis using a b le detectBeat_bass_60 getFrequencyData_file_service by blast
qed

section \<open>Properties of the waveform traces\<close>

text \<open>
  The primary trace stays between the margins on every canvas at least two margins high,
  whatever the samples and the sensitivity.
\<close>

lemma primary_y_within_margins:
  assumes "2 * margin \<le> h"
  shows "margin \<le> primary_y h sens sample" and "primary_y h sens sample \<le> h - margin"
proof -
  have m: "0 \<le> maxAmplitude h" using assms by (simp add: maxAmplitude_def)
  have lo: "- maxAmplitude h \<le> max (- maxAmplitude h) (min (sample * amplitude h sens) (maxAmplitude h))"
    by simp
  have hi: "max (- maxAmplitude h) (min (sample * amplitude h sens) (maxAmplitude h)) \<le> maxAmplitude h"
    using m by simp
  show "margin \<le> primary_y h sens sample"
    using lo unfolding primary_y_def maxAmplitude_def by linarith
  show "primary_y h sens sample \<le> h - margin"
    using hi unfolding primary_y_def maxAmplitude_def by linarith
qed

lemma trace_snd: "snd ` set (trace yf dx x samples) = yf ` set samples"
  by (induction samples arbitrary: x) auto

lemma primary_trace_within_margins:
  assumes "2 * margin \<le> h" and "(x, y) \<in> set (primary_trace w h sens wl samples)"
  shows "margin \<le> y \<and> y \<le> h - margin"
proof -
  from assms(2) have "y \<in> snd ` set (primary_trace w h sens wl samples)"
    by force
  then obtain sample where "y = primary_y h sens sample"
    unfolding primary_trace_def trace_snd by blast
  then show ?thesis
    using primary_y_within_margins [OF assms(1)] by simp
qed

text \<open>
  Claim C5 at a failing input. On a canvas 720 high with the sensitivity slider at 50, a
  full-scale sample \<open>1\<close> is drawn by the primary trace at \<open>y = 537\<close>, inside
  \<open>[6, 714]\<close>, and by the mirror pass at \<open>y = -17640\<close>; with the default sensitivity \<open>1\<close>
  the mirror pass draws it at \<open>y = 0\<close>. The mirror pass leaves \<open>[margin, height - margin]\<close>.
\<close>

theorem C5_mirror_leaves_canvas:
  "mirror_trace 1280 720 50 1024 [1] = [(0, - 17640)] \<and>
   primary_trace 1280 720 (Some 50) 1024 [1] = [(0, 537)] \<and>
   mirror_trace 1280 720 1 1024 [1] = [(0, 0)] \<and>
   \<not> (margin \<le> mirror_y 720 50 1 \<and> mirror_y 720 50 1 \<le> 720 - margin)"
  by (simp add: mirror_trace_def primary_trace_def bufferLength_def numSamples_def sliceWidth_def
      mirror_y_def primary_y_def maxAmplitude_def amplitude_def sensitivityScale_def margin_def)

section \<open>Properties of the volume mapping\<close>

lemma decibelValue_pos: "0 < v \<Longrightarrow> v \<le> 1 \<Longrightarrow> decibelValue v = 20 * log 10 v"
  by (simp add: decibelValue_def clampedVolume_def)

lemma decibelValue_clamp: "decibelValue v = decibelValue (clampedVolume v)"
  by (simp add: decibelValue_def clampedVolume_def)

lemma decibelValue_mono_pos:
  assumes "0 < v1" and "v1 \<le> v2"
  shows "decibelValue v1 \<le> decibelValue v2"
proof -
  have "0 < clampedVolume v1" "clampedVolume v1 \<le> clampedVolume v2"
    using assms by (simp_all add: clampedVolume_def)
  then show ?thesis
    by (simp add: decibelValue_def)
qed

lemma log10_small: "log 10 (10 powr (- 7 / 2)) = - 7 / 2"
  by simp

lemma decibelValue_floor:
  assumes "10 powr (- 7 / 2) \<le> v"
  shows "decibelValue 0 \<le> decibelValue v"
proof -
  have p: "0 < (10::real) powr (- 7 / 2)" by simp
  have le1: "(10::real) powr (- 7 / 2) \<le> 1"
    using powr_mono [of "- 7 / 2" 0 "10::real"] by simp
  have "decibelValue (10 powr (- 7 / 2)) \<le> decibelValue v"
    using p assms by (rule decibelValue_mono_pos)
  moreover have "decibelValue (10 powr (- 7 / 2)) = - 70"
    using p le1 by (simp add: decibelValue_pos)
  moreover have "decibelValue 0 = - 70"
    by (simp add: decibelValue_def clampedVolume_def)
  ultimately show ?thesis by simp
qed

lemma log10_ten_thousandth: "log 10 (1 / 10000) = - 4"
proof -
  have "log 10 (1 / 10000) = - log 10 10000"
    using log_inverse [of 10 10000] by (simp add: inverse_eq_divide)
  also have "log 10 (10000::real) = 4"
    using log_pow_cancel [of "10::real" 4] by simp
  finally show ?thesis by simp
qed

text \<open>
  Claim C6, as the code has it. \<open>setVolume\<close> clamps its argument to \<open>[0, 1]\<close>, stores the
  clamped value and sets the gain to \<open>-70\<close> dB for a clamped volume of \<open>0\<close> and to
  \<open>20 * log 10 v\<close> dB for a clamped volume \<open>v > 0\<close>, so volume \<open>1\<close> is \<open>0\<close> dB. The gain is
  monotone over positive volumes, and the gain at volume \<open>0\<close> is at most the gain at
  every volume from \<open>10 powr (-7/2)\<close> upwards. Without a volume node the call changes nothing.
\<close>

theorem C6_volume_mapping:
  "decibelValue 0 = - 70 \<and> decibelValue 1 = 0 \<and>
   decibelValue volume = decibelValue (max 0 (min 1 volume)) \<and>
   (0 < volume \<and> volume \<le> 1 \<longrightarrow> decibelValue volume = 20 * log 10 volume) \<and>
   (0 < v1 \<and> v1 \<le> v2 \<longrightarrow> decibelValue v1 \<le> decibelValue v2) \<and>
   (10 powr (- 7 / 2) \<le> v2 \<longrightarrow> decibelValue 0 \<le> decibelValue v2) \<and>
   (\<forall>node. volumeNode s = Some node \<longrightarrow>
      setVolume volume s =
        Inr (s\<lparr>currentVolume := max 0 (min 1 volume),
              volumeNode := Some (node\<lparr>volume_value := decibelValue volume\<rparr>)\<rparr>)) \<and>
   (volumeNode s = None \<longrightarrow> setVolume volume s = Inr s)"
proof (intro conjI impI allI)
  show "decibelValue 0 = - 70" by (simp add: decibelValue_def clampedVolume_def)
  show "decibelValue 1 = 0" by (simp add: decibelValue_def clampedVolume_def)
  show "decibelValue volume = decibelValue (max 0 (min 1 volume))"
    using decibelValue_clamp [of volume] by (simp add: clampedVolume_def)
  show "decibelValue volume = 20 * log 10 volume" if "0 < volume \<and> volume \<le> 1"
    using that by (simp add: decibelValue_pos)
  show "decibelValue v1 \<le> decibelValue v2" if "0 < v1 \<and> v1 \<le> v2"
    using that by (simp add: decibelValue_mono_pos)
  show "decibelValue 0 \<le> decibelValue v2" if "10 powr (- 7 / 2) \<le> v2"
    using that by (rule decibelValue_floor)
  show "setVolume volume s =
        Inr (s\<lparr>currentVolume := max 0 (min 1 volume),
              volumeNode := Some (node\<lparr>volume_value := decibelValue volume\<rparr>)\<rparr>)"
    if "volumeNode s = Some node" for node
    using that by (simp add: setVolume_def clampedVolume_def)
  show "setVolume volume s = Inr s" if "volumeNode s = None"
    using that by (simp add: setVolume_def)
qed

theorem C6_volume_mapping_witness:
  "decibelValue 0 = - 70 \<and> decibelValue 1 = 0 \<and>
   decibelValue (1 / 2) = 20 * log 10 (1 / 2) \<and>
   decibelValue (1 / 2) \<le> decibelValue 1 \<and> decibelValue 0 \<le> decibelValue 1 \<and>
   setVolume 3 (new_AudioService (Inl (JsError ''no analyser''))) =
     Inr \<lparr>currentSource = None, player = None, analyser = None, isPlaying = False,
          volumeNode = Some \<lparr>volume_value = 0\<rparr>, currentVolume = 1\<rparr>"
proof -
  note c = C6_volume_mapping [of "1 / 2" "1 / 2" 1 "new_AudioService (Inl (JsError ''no analyser''))"]
  have le: "(10::real) powr (- 7 / 2) \<le> 1"
    using powr_mono [of "- 7 / 2" 0 "10::real"] by simp
  from c have a: "decibelValue 0 = - 70" and b: "decibelValue 1 = 0" by blast+
  from c have d: "decibelValue (1 / 2) = 20 * log 10 (1 / 2)" by simp
  from c have e: "decibelValue (1 / 2) \<le> decibelValue 1" by simp
  have f: "decibelValue 0 \<le> decibelValue 1" using a b by simp
  have g: "setVolume 3 (new_AudioService (Inl (JsError ''no analyser''))) =
     Inr \<lparr>currentSource = None, player = None, analyser = None, isPlaying = False,
          volumeNode = Some \<lparr>volume_value = 0\<rparr>, currentVolume = 1\<rparr>"
    using C6_volume_mapping [of 3 1 1 "new_AudioService (Inl (JsError ''no analyser''))"] b
    by (simp add: new_AudioService_def)
  show ?thesis using a b d e f g by blast
qed

text \<open>
  Volume \<open>1/10000\<close> gets \<open>-80\<close> dB, less than the \<open>-70\<close> dB of volume \<open>0\<close>: the gain is not
  monotone on all of \<open>[0, 1]\<close>.
\<close>

theorem C6_counterexample:
  "(0::real) < 1 / 10000 \<and> decibelValue 0 = - 70 \<and> decibelValue (1 / 10000) = - 80 \<and>
   \<not> (decibelValue 0 \<le> decibelValue (1 / 10000))"
  using log10_ten_thousandth by (simp add: decibelValue_def clampedVolume_def)

text \<open>
  Claim C7, as the code has it. \<open>getFrequencyData\<close> and \<open>getWaveformData\<close> never throw, and
  they return null exactly when the service has no analyser or the analyser's read throws.
  Whether a source is current and whether it is playing has no influence on what they
  return.
\<close>

theorem C7_null_results:
  "(\<exists>r s'. getFrequencyData s = Inr (r, s') \<and>
      (r = None \<longleftrightarrow> analyser s = None \<or> (\<exists>a e. analyser s = Some a \<and> fft_read a = Inl e))) \<and>
   (\<exists>r s'. getWaveformData s = Inr (r, s') \<and>
      (r = None \<longleftrightarrow> analyser s = None \<or> (\<exists>a e. analyser s = Some a \<and> waveform_read a = Inl e))) \<and>
   returned (getFrequencyData (s\<lparr>currentSource := src, isPlaying := playing\<rparr>)) =
     returned (getFrequencyData s) \<and>
   returned (getWaveformData (s\<lparr>currentSource := src, isPlaying := playing\<rparr>)) =
     returned (getWaveformData s)"
proof (intro conjI)
  show "\<exists>r s'. getFrequencyData s = Inr (r, s') \<and>
      (r = None \<longleftrightarrow> analyser s = None \<or> (\<exists>a e. analyser s = Some a \<and> fft_read a = Inl e))"
    by (cases "analyser s") (auto simp add: getFrequencyData_def Let_def split: sum.splits)
  show "\<exists>r s'. getWaveformData s = Inr (r, s') \<and>
      (r = None \<longleftrightarrow> analyser s = None \<or> (\<exists>a e. analyser s = Some a \<and> waveform_read a = Inl e))"
    by (cases "analyser s") (auto simp add: getWaveformData_def Let_def split: sum.splits)
  show "returned (getFrequencyData (s\<lparr>currentSource := src, isPlaying := playing\<rparr>)) =
     returned (getFrequencyData s)"
    by (cases "analyser s") (auto simp add: getFrequencyData_def returned_def Let_def split: sum.splits)
  show "returned (getWaveformData (s\<lparr>currentSource := src, isPlaying := playing\<rparr>)) =
     returned (getWaveformData s)"
    by (cases "analyser s") (auto simp add: getWaveformData_def returned_def Let_def split: sum.splits)
qed

theorem C7_null_results_witness:
  "returned (getFrequencyData (new_AudioService (Inl (JsError ''no analyser'')))) = Inr None \<and>
   returned (getWaveformData (new_AudioService (Inr broken_analyser))) = Inr None \<and>
   returned (getWaveformData file_service) = Inr (Some [1 / 2, - 1 / 2, 1 / 4, - 1 / 4])"
proof -
  have a: "returned (getFrequencyData (new_AudioService (Inl (JsError ''no analyser'')))) = Inr None"
  proof -
    from C7_null_results [where s = "new_AudioService (Inl (JsError ''no analyser''))"
        and src = None and playing = False]
    obtain r s' where g: "getFrequencyData (new_AudioService (Inl (JsError ''no analyser''))) = Inr (r, s')"
      and n: "r = None \<longleftrightarrow> analyser (new_AudioService (Inl (JsError ''no analyser''))) = None \<or>
          (\<exists>a e. analyser (new_AudioService (Inl (JsError ''no analyser''))) = Some a \<and> fft_read a = Inl e)"
      by blast
    have "analyser (new_AudioService (Inl (JsError ''no analyser''))) = None"
      by (simp add: new_AudioService_def)
    with n have "r = None" by simp
    with g show ?thesis by (simp add: returned_def)
  qed
  have b: "returned (getWaveformData (new_AudioService (Inr broken_analyser))) = Inr None"
  proof -
    from C7_null_results [where s = "new_AudioService (Inr broken_analyser)"
        and src = None and playing = False]
    obtain r s' where g: "getWaveformData (new_AudioService (Inr broken_analyser)) = Inr (r, s')"
      and n: "r = None \<longleftrightarrow> analyser (new_AudioService (Inr broken_analyser)) = None \<or>
          (\<exists>a e. analyser (new_AudioService (Inr broken_analyser)) = Some a \<and> waveform_read a = Inl e)"
      by blast
    have "analyser (new_AudioService (Inr broken_analyser)) = Some broken_analyser \<and>
        waveform_read broken_analyser = Inl (JsError ''InvalidStateError'')"
      by (simp add: new_AudioService_def broken_analyser_def)
    with n have "r = None" by blast
    with g show ?thesis by (simp add: returned_def)
  qed
  have "file_service = (file_service\<lparr>currentSource := None, isPlaying := False\<rparr>)\<lparr>
      currentSource := Some \<lparr>source_type = FILE, source_name = ''song.mp3''\<rparr>, isPlaying := False\<rparr>"
    by (simp add: file_service_def new_AudioService_def)
  then have "returned (getWaveformData file_service) =
      returned (getWaveformData (file_service\<lparr>currentSource := None, isPlaying := False\<rparr>))"
    using C7_null_results [where s = "file_service\<lparr>currentSource := None, isPlaying := False\<rparr>"
        and src = "Some \<lparr>source_type = FILE, source_name = ''song.mp3''\<rparr>" and playing = False]
    by metis
  also have "\<dots> = Inr (Some [1 / 2, - 1 / 2, 1 / 4, - 1 / 4])"
    by (simp add: getWaveformData_def file_service_def new_AudioService_def bass_analyser_def
        returned_def)
  finally show ?thesis using a b by blast
qed

text \<open>
  A freshly constructed service has no current source and is not playing, yet both reads
  return the analyser's buffers, not null.
\<close>

theorem C7_counterexample:
  "currentSource (new_AudioService (Inr idle_analyser)) = None \<and>
   \<not> isPlaying (new_AudioService (Inr idle_analyser)) \<and>
   returned (getFrequencyData (new_AudioService (Inr idle_analyser))) =
     Inr (Some [- 100, - 100, - 100, - 100]) \<and>
   returned (getWaveformData (new_AudioService (Inr idle_analyser))) =
     Inr (Some [0, 0, 0, 0])"
  by (simp add: new_AudioService_def idle_analyser_def getFrequencyData_def getWaveformData_def
      returned_def)

section \<open>Properties of the colour selection\<close>

lemma bar_colorIndex_bounds:
  assumes "real i < n" and "0 < ncolors"
  shows "0 \<le> bar_colorIndex i n ncolors" and "bar_colorIndex i n ncolors < int ncolors"
proof -
  have n: "0 < n" using assms(1) of_nat_0_le_iff [of i] by linarith
  show "0 \<le> bar_colorIndex i n ncolors"
    using n by (simp add: bar_colorIndex_def)
  have "real i / n < 1" using assms n by simp
  then have "(real i / n) * real ncolors < 1 * real ncolors"
    using assms(2) by (intro mult_strict_right_mono) simp_all
  then show "bar_colorIndex i n ncolors < int ncolors"
    by (simp add: bar_colorIndex_def floor_less_iff)
qed

lemma js_rem_small:
  assumes "0 \<le> k" and "k < m"
  shows "js_rem k m = Some k"
  using assms by (cases "k = 0") (simp_all add: js_rem_def)

lemma drawBars_colorIndex_bounds:
  assumes "real i < n" and "0 < ncolors"
  shows "0 \<le> drawBars_colorIndex i n ncolors" and "drawBars_colorIndex i n ncolors < int ncolors"
  using bar_colorIndex_bounds [OF assms]
  by (simp_all add: drawBars_colorIndex_def bar_colorIndex_def)

lemma unit_colorIndex_bounds:
  assumes "0 \<le> v" and "v \<le> 1" and "0 < ncolors"
  shows "0 \<le> \<lfloor>v * (real ncolors - 1)\<rfloor>" and "\<lfloor>v * (real ncolors - 1)\<rfloor> \<le> int ncolors - 1"
proof -
  have k: "0 \<le> real ncolors - 1" using assms(3) by simp
  then have "0 \<le> v * (real ncolors - 1)" using assms(1) by simp
  then show "0 \<le> \<lfloor>v * (real ncolors - 1)\<rfloor>" by simp
  have "v * (real ncolors - 1) \<le> 1 * (real ncolors - 1)"
    using assms(2) k by (rule mult_right_mono)
  then have "\<lfloor>v * (real ncolors - 1)\<rfloor> \<le> \<lfloor>real ncolors - 1\<rfloor>"
    by (intro floor_mono) simp
  also have "\<lfloor>real ncolors - 1\<rfloor> = int ncolors - 1"
  proof -
    have "real ncolors - 1 = of_int (int ncolors - 1)" by simp
    then show ?thesis by (simp only: floor_of_int)
  qed
  finally show "\<lfloor>v * (real ncolors - 1)\<rfloor> \<le> int ncolors - 1" .
qed

text \<open>
  Claim C8, as the code has it. In the bar mode, in \<open>BarVisualizer\<close> and in the canvas
  component's \<open>drawBars\<close>, the colour index is the floor of \<open>i / numBands\<close> times the number
  of colours; the subscript is the index modulo the number of colours, which is the index
  itself, and it lies in \<open>[0, colors.length - 1]\<close>. In \<open>ParticleVisualizer\<close> and
  \<open>GeometricVisualizer\<close> the index is the floor of the normalized magnitude times the number
  of colours, the subscript is the index capped at \<open>colors.length - 1\<close>, and it lies in
  \<open>[0, colors.length - 1]\<close> whenever the magnitude is not negative. In the canvas
  component's particle and asteroid modes the index is the floor of the driving value times
  \<open>colors.length - 1\<close>, it is the subscript, and it lies in \<open>[0, colors.length - 1]\<close>
  whenever the driving value lies in \<open>[0, 1]\<close>.
\<close>

theorem C8_color_index:
  "(real i < n \<and> 0 < ncolors \<longrightarrow>
      bar_color_subscript i n ncolors = Some \<lfloor>(real i / n) * real ncolors\<rfloor> \<and>
      drawBars_color_subscript i n ncolors = Some \<lfloor>(real i / n) * real ncolors\<rfloor> \<and>
      0 \<le> \<lfloor>(real i / n) * real ncolors\<rfloor> \<and>
      \<lfloor>(real i / n) * real ncolors\<rfloor> \<le> int ncolors - 1) \<and>
   (0 \<le> v \<and> 0 < ncolors \<longrightarrow>
      particle_color_subscript v ncolors = min \<lfloor>v * real ncolors\<rfloor> (int ncolors - 1) \<and>
      0 \<le> particle_color_subscript v ncolors \<and>
      particle_color_subscript v ncolors \<le> int ncolors - 1 \<and>
      geometric_color_subscript v ncolors = min \<lfloor>v * real ncolors\<rfloor> (int ncolors - 1) \<and>
      0 \<le> geometric_color_subscript v ncolors \<and>
      geometric_color_subscript v ncolors \<le> int ncolors - 1) \<and>
   (0 \<le> v \<and> v \<le> 1 \<and> 0 < ncolors \<longrightarrow>
      draw3DParticles_colorIndex v ncolors = \<lfloor>v * (real ncolors - 1)\<rfloor> \<and>
      0 \<le> draw3DParticles_colorIndex v ncolors \<and>
      draw3DParticles_colorIndex v ncolors \<le> int ncolors - 1 \<and>
      drawAsteroids2D_colorIndex v ncolors = \<lfloor>v * (real ncolors - 1)\<rfloor> \<and>
      0 \<le> drawAsteroids2D_colorIndex v ncolors \<and>
      drawAsteroids2D_colorIndex v ncolors \<le> int ncolors - 1) \<and>
   (0 \<le> colorFactor z m \<and> colorFactor z m \<le> 1 \<and> 0 < ncolors \<longrightarrow>
      drawAsteroids3D_colorIndex z m ncolors = \<lfloor>colorFactor z m * (real ncolors - 1)\<rfloor> \<and>
      0 \<le> drawAsteroids3D_colorIndex z m ncolors \<and>
      drawAsteroids3D_colorIndex z m ncolors \<le> int ncolors - 1)"
proof (intro conjI impI)
  assume h: "real i < n \<and> 0 < ncolors"
  then have lo: "0 \<le> bar_colorIndex i n ncolors" and hi: "bar_colorIndex i n ncolors < int ncolors"
    using bar_colorIndex_bounds by blast+
  from h have lo': "0 \<le> drawBars_colorIndex i n ncolors"
    and hi': "drawBars_colorIndex i n ncolors < int ncolors"
    using drawBars_colorIndex_bounds by blast+
  show "bar_color_subscript i n ncolors = Some \<lfloor>(real i / n) * real ncolors\<rfloor>"
    using js_rem_small [OF lo hi] by (simp add: bar_color_subscript_def bar_colorIndex_def)
  show "drawBars_color_subscript i n ncolors = Some \<lfloor>(real i / n) * real ncolors\<rfloor>"
    using js_rem_small [OF lo' hi']
    by (simp add: drawBars_color_subscript_def drawBars_colorIndex_def)
  show "0 \<le> \<lfloor>(real i / n) * real ncolors\<rfloor>"
    using lo by (simp add: bar_colorIndex_def)
  show "\<lfloor>(real i / n) * real ncolors\<rfloor> \<le> int ncolors - 1"
    using hi by (simp add: bar_colorIndex_def)
next
  assume h: "0 \<le> v \<and> 0 < ncolors"
  show "particle_color_subscript v ncolors = min \<lfloor>v * real ncolors\<rfloor> (int ncolors - 1)"
    by (simp add: particle_color_subscript_def particle_colorIndex_def)
  show "0 \<le> particle_color_subscript v ncolors"
    using h by (simp add: particle_color_subscript_def particle_colorIndex_def)
  show "particle_color_subscript v ncolors \<le> int ncolors - 1"
    by (simp add: particle_color_subscript_def)
  show "geometric_color_subscript v ncolors = min \<lfloor>v * real ncolors\<rfloor> (int ncolors - 1)"
    by (simp add: geometric_color_subscript_def geometric_colorIndex_def)
  show "0 \<le> geometric_color_subscript v ncolors"
    using h by (simp add: geometric_color_subscript_def geometric_colorIndex_def)
  show "geometric_color_subscript v ncolors \<le> int ncolors - 1"
    by (simp add: geometric_color_subscript_def)
next
  assume h: "0 \<le> v \<and> v \<le> 1 \<and> 0 < ncolors"
  then have b: "0 \<le> \<lfloor>v * (real ncolors - 1)\<rfloor>" "\<lfloor>v * (real ncolors - 1)\<rfloor> \<le> int ncolors - 1"
    using unit_colorIndex_bounds by blast+
  show "draw3DParticles_colorIndex v ncolors = \<lfloor>v * (real ncolors - 1)\<rfloor>"
    by (simp add: draw3DParticles_colorIndex_def)
  show "0 \<le> draw3DParticles_colorIndex v ncolors"
    using b(1) by (simp add: draw3DParticles_colorIndex_def)
  show "draw3DParticles_colorIndex v ncolors \<le> int ncolors - 1"
    using b(2) by (simp add: draw3DParticles_colorIndex_def)
  show "drawAsteroids2D_colorIndex v ncolors = \<lfloor>v * (real ncolors - 1)\<rfloor>"
    by (simp add: drawAsteroids2D_colorIndex_def)
  show "0 \<le> drawAsteroids2D_colorIndex v ncolors"
    using b(1) by (simp add: drawAsteroids2D_colorIndex_def)
  show "drawAsteroids2D_colorIndex v ncolors \<le> int ncolors - 1"
    using b(2) by (simp add: drawAsteroids2D_colorIndex_def)
next
  assume h: "0 \<le> colorFactor z m \<and> colorFactor z m \<le> 1 \<and> 0 < ncolors"
  then have b: "0 \<le> \<lfloor>colorFactor z m * (real ncolors - 1)\<rfloor>"
      "\<lfloor>colorFactor z m * (real ncolors - 1)\<rfloor> \<le> int ncolors - 1"
    using unit_colorIndex_bounds by blast+
  show "drawAsteroids3D_colorIndex z m ncolors = \<lfloor>colorFactor z m * (real ncolors - 1)\<rfloor>"
    by (simp add: drawAsteroids3D_colorIndex_def)
  show "0 \<le> drawAsteroids3D_colorIndex z m ncolors"
    using b(1) by (simp add: drawAsteroids3D_colorIndex_def)
  show "drawAsteroids3D_colorIndex z m ncolors \<le> int ncolors - 1"
    using b(2) by (simp add: drawAsteroids3D_colorIndex_def)
qed

lemma colorFactor_sample: "colorFactor 0 (1 / 2) = 1 / 2"
  by (simp add: colorFactor_def depthFactor_def)

theorem C8_color_index_witness:
  "bar_color_subscript 2 4 6 = Some 3 \<and> drawBars_color_subscript 2 4 6 = Some 3 \<and>
   particle_color_subscript (1 / 2) 6 = 3 \<and> geometric_color_subscript (1 / 2) 6 = 3 \<and>
   draw3DParticles_colorIndex (1 / 2) 6 = 2 \<and> drawAsteroids2D_colorIndex (1 / 2) 6 = 2 \<and>
   drawAsteroids3D_colorIndex 0 (1 / 2) 6 = 2"
  using C8_color_index [of 2 4 6 "1 / 2" 0 "1 / 2"] colorFactor_sample by simp

text \<open>
  With six colours, the third of four bars (\<open>i = 2\<close>) takes colour \<open>3\<close>, and a particle or
  a mesh of normalized magnitude \<open>1/2\<close> takes colour \<open>3\<close>, where
  \<open>\<lfloor>drivingValue * (colors.length - 1)\<rfloor>\<close> is \<open>2\<close>.
\<close>

theorem C8_counterexample:
  "bar_color_subscript 2 4 6 \<noteq> Some \<lfloor>(real 2 / real 4) * (real 6 - 1)\<rfloor> \<and>
   particle_color_subscript (1 / 2) 6 \<noteq> \<lfloor>(1 / 2) * (real 6 - 1)\<rfloor> \<and>
   geometric_color_subscript (1 / 2) 6 \<noteq> \<lfloor>(1 / 2) * (real 6 - 1)\<rfloor>"
  by (simp add: bar_color_subscript_def bar_colorIndex_def js_rem_def
      particle_color_subscript_def particle_colorIndex_def
      geometric_color_subscript_def geometric_colorIndex_def)

section \<open>Properties of the settings store\<close>

lemma updateSettings_field:
  "settings (updateSettings u st) = spread (settings st) u"
  "presets (updateSettings u st) = presets st"
  "colorSchemes (updateSettings u st) = colorSchemes st"
  by (simp_all add: updateSettings_def)

lemma loadPreset_settings:
  "settings (loadPreset pid st) =
     (case find (\<lambda>p. preset_id p = pid) (presets st) of
        None \<Rightarrow> settings st | Some preset \<Rightarrow> preset_settings preset)"
  by (cases "find (\<lambda>p. preset_id p = pid) (presets st)") (simp_all add: loadPreset_def)

text \<open>
  Claim C9, as the code has it. \<open>updateSettings\<close> replaces the settings by a new object in
  which every field present in the update has the update's value and every field absent
  from it keeps its previous value; presets and colour schemes are untouched. Saving a
  preset and adding a colour scheme leave the settings as they are. Loading a preset is
  the one other operation that changes the settings: it replaces them by the snapshot of
  the first preset with the given id, and leaves them as they are when there is none.
\<close>

theorem C9_updateSettings:
  "wavelengthSize (settings (updateSettings u st)) =
     (case p_wavelengthSize u of None \<Rightarrow> wavelengthSize (settings st) | Some v \<Rightarrow> v) \<and>
   numFrequencyBands (settings (updateSettings u st)) =
     (case p_numFrequencyBands u of None \<Rightarrow> numFrequencyBands (settings st) | Some v \<Rightarrow> v) \<and>
   vtype (settings (updateSettings u st)) =
     (case p_vtype u of None \<Rightarrow> vtype (settings st) | Some v \<Rightarrow> v) \<and>
   visualizationType (settings (updateSettings u st)) =
     (case p_visualizationType u of None \<Rightarrow> visualizationType (settings st) | Some v \<Rightarrow> v) \<and>
   resolution (settings (updateSettings u st)) =
     (case p_resolution u of None \<Rightarrow> resolution (settings st) | Some v \<Rightarrow> v) \<and>
   width (settings (updateSettings u st)) =
     (case p_width u of None \<Rightarrow> width (settings st) | Some v \<Rightarrow> v) \<and>
   height (settings (updateSettings u st)) =
     (case p_height u of None \<Rightarrow> height (settings st) | Some v \<Rightarrow> v) \<and>
   orientation (settings (updateSettings u st)) =
     (case p_orientation u of None \<Rightarrow> orientation (settings st) | Some v \<Rightarrow> v) \<and>
   frameRate (settings (updateSettings u st)) =
     (case p_frameRate u of None \<Rightarrow> frameRate (settings st) | Some v \<Rightarrow> v) \<and>
   colorScheme (settings (updateSettings u st)) =
     (case p_colorScheme u of None \<Rightarrow> colorScheme (settings st) | Some v \<Rightarrow> v) \<and>
   sensitivity (settings (updateSettings u st)) =
     (case p_sensitivity u of None \<Rightarrow> sensitivity (settings st) | Some v \<Rightarrow> v) \<and>
   showControls (settings (updateSettings u st)) =
     (case p_showControls u of None \<Rightarrow> showControls (settings st) | Some v \<Rightarrow> v) \<and>
   isSimpleMode (settings (updateSettings u st)) =
     (case p_isSimpleMode u of None \<Rightarrow> isSimpleMode (settings st) | Some v \<Rightarrow> v) \<and>
   barWidth (settings (updateSettings u st)) =
     (case p_barWidth u of None \<Rightarrow> barWidth (settings st) | Some v \<Rightarrow> v) \<and>
   barSpacing (settings (updateSettings u st)) =
     (case p_barSpacing u of None \<Rightarrow> barSpacing (settings st) | Some v \<Rightarrow> v) \<and>
   amplification (settings (updateSettings u st)) =
     (case p_amplification u of None \<Rightarrow> amplification (settings st) | Some v \<Rightarrow> v) \<and>
   primaryColor (settings (updateSettings u st)) =
     (case p_primaryColor u of None \<Rightarrow> primaryColor (settings st) | Some v \<Rightarrow> v) \<and>
   secondaryColor (settings (updateSettings u st)) =
     (case p_secondaryColor u of None \<Rightarrow> secondaryColor (settings st) | Some v \<Rightarrow> v) \<and>
   useGradient (settings (updateSettings u st)) =
     (case p_useGradient u of None \<Rightarrow> useGradient (settings st) | Some v \<Rightarrow> v) \<and>
   lineWidth (settings (updateSettings u st)) =
     (case p_lineWidth u of None \<Rightarrow> lineWidth (settings st) | Some v \<Rightarrow> v) \<and>
   useGlow (settings (updateSettings u st)) =
     (case p_useGlow u of None \<Rightarrow> useGlow (settings st) | Some v \<Rightarrow> v) \<and>
   glowIntensity (settings (updateSettings u st)) =
     (case p_glowIntensity u of None \<Rightarrow> glowIntensity (settings st) | Some v \<Rightarrow> v) \<and>
   useRotation (settings (updateSettings u st)) =
     (case p_useRotation u of None \<Rightarrow> useRotation (settings st) | Some v \<Rightarrow> v) \<and>
   rotationSpeed (settings (updateSettings u st)) =
     (case p_rotationSpeed u of None \<Rightarrow> rotationSpeed (settings st) | Some v \<Rightarrow> v) \<and>
   presets (updateSettings u st) = presets st \<and>
   colorSchemes (updateSettings u st) = colorSchemes st \<and>
   settings (savePreset name now st) = settings st \<and>
   settings (addColorScheme name cols now st) = settings st \<and>
   settings (loadPreset pid st) =
     (case find (\<lambda>p. preset_id p = pid) (presets st) of
        None \<Rightarrow> settings st | Some preset \<Rightarrow> preset_settings preset)"
  unfolding updateSettings_field loadPreset_settings
  by (simp add: spread_def savePreset_def addColorScheme_def)

theorem C9_updateSettings_witness:
  "sensitivity (settings (updateSettings (no_updates\<lparr>p_sensitivity := Some 50\<rparr>) initial_Provider)) = 50 \<and>
   numFrequencyBands (settings (updateSettings (no_updates\<lparr>p_sensitivity := Some 50\<rparr>) initial_Provider)) = 8 \<and>
   settings (loadPreset ''preset-0'' initial_Provider) = defaultSettings"
  using C9_updateSettings [of "no_updates\<lparr>p_sensitivity := Some 50\<rparr>" initial_Provider "''a''" "''0''" "[]" "''preset-0''"]
  by (simp add: no_updates_def initial_Provider_def defaultSettings_def)

text \<open>
  After a preset was saved under the default settings and the sensitivity then set to 50,
  loading that preset puts the sensitivity back to 1: the settings change through an
  operation other than \<open>updateSettings\<close>.
\<close>

theorem C9_counterexample:
  "sensitivity (settings store_with_preset) = 50 \<and>
   sensitivity (settings (loadPreset ''preset-1700000000000'' store_with_preset)) = 1 \<and>
   settings (loadPreset ''preset-1700000000000'' store_with_preset) \<noteq> settings store_with_preset"
proof -
  have a: "sensitivity (settings store_with_preset) = 50"
    by (simp add: store_with_preset_def updateSettings_def spread_def no_updates_def)
  have b: "sensitivity (settings (loadPreset ''preset-1700000000000'' store_with_preset)) = 1"
    by (simp add: store_with_preset_def updateSettings_def savePreset_def loadPreset_def
        initial_Provider_def defaultSettings_def)
  from a b have "sensitivity (settings (loadPreset ''preset-1700000000000'' store_with_preset)) \<noteq>
      sensitivity (settings store_with_preset)" by simp
  then have "settings (loadPreset ''preset-1700000000000'' store_with_preset) \<noteq> settings store_with_preset"
    by metis
  with a b show ?thesis by blast
qed

section \<open>Properties of seeking\<close>

lemma duration_or_0_nonneg:
  assumes "\<forall>p b. player s = Some p \<and> buffer p = Some b \<longrightarrow> 0 \<le> duration b"
  shows "0 \<le> duration_or_0 s"
proof (cases "getDuration s")
  case None
  then show ?thesis by (simp add: duration_or_0_def)
next
  case (Some d)
  then have "0 \<le> d" using assms
    by (auto simp add: getDuration_def split: option.splits)
  then show ?thesis using Some by (simp add: duration_or_0_def js_or_def)
qed

lemma seekTo_returns: "\<exists>s'. seekTo seek seconds s = Inr s'"
  by (simp add: seekTo_def split: option.splits sum.splits)

lemma duration_or_0_cases:
  "(player s = None \<longrightarrow> duration_or_0 s = 0) \<and>
   (\<forall>p. player s = Some p \<and> buffer p = None \<longrightarrow> duration_or_0 s = 0) \<and>
   (\<forall>p b. player s = Some p \<and> buffer p = Some b \<longrightarrow> duration_or_0 s = duration b)"
  by (simp add: duration_or_0_def getDuration_def js_or_def)

lemma getDuration_cases:
  "(player s = None \<longrightarrow> getDuration s = None) \<and>
   (\<forall>p. player s = Some p \<and> buffer p = None \<longrightarrow> getDuration s = None) \<and>
   (\<forall>p b. player s = Some p \<and> buffer p = Some b \<longrightarrow> getDuration s = Some (duration b))"
  by (simp add: getDuration_def)

lemma file_service_durations:
  "\<forall>p b. player file_service = Some p \<and> buffer p = Some b \<longrightarrow> 0 \<le> duration b"
  by (simp add: file_service_def new_AudioService_def)

text \<open>
  Claim C10. The duration that \<open>seekTo\<close> clamps against is the duration of the player's
  buffer, and \<open>0\<close> when there is no player or the player has no buffer. With track
  durations that are not negative, the position handed to the player's \<open>seek\<close> is
  \<open>max 0 (min seconds duration)\<close> and lies in \<open>[0, duration]\<close>: a request inside the range
  is kept, a negative one becomes \<open>0\<close>, one past the end becomes the duration. Without a
  player, and when the library's \<open>seek\<close> throws, \<open>seekTo\<close> returns with the service
  unchanged; otherwise with the player as \<open>seek\<close> left it. \<open>seekTo\<close> never throws.
\<close>

theorem C10_seekTo:
  assumes "\<forall>p b. player s = Some p \<and> buffer p = Some b \<longrightarrow> 0 \<le> duration b"
  shows "0 \<le> validPosition seconds s \<and> validPosition seconds s \<le> duration_or_0 s \<and>
     (0 \<le> seconds \<and> seconds \<le> duration_or_0 s \<longrightarrow> validPosition seconds s = seconds) \<and>
     (seconds < 0 \<longrightarrow> validPosition seconds s = 0) \<and>
     (duration_or_0 s < seconds \<longrightarrow> validPosition seconds s = duration_or_0 s) \<and>
     (getDuration s = None \<longrightarrow> duration_or_0 s = 0) \<and>
     (\<forall>d. getDuration s = Some d \<longrightarrow> duration_or_0 s = d) \<and>
     (player s = None \<longrightarrow> seekTo seek seconds s = Inr s) \<and>
     (\<forall>p e. player s = Some p \<and> seek (validPosition seconds s) p = Inl e \<longrightarrow>
        seekTo seek seconds s = Inr s) \<and>
     (\<forall>p p'. player s = Some p \<and> seek (validPosition seconds s) p = Inr p' \<longrightarrow>
        seekTo seek seconds s = Inr (s\<lparr>player := Some p'\<rparr>)) \<and>
     (\<exists>s'. seekTo seek seconds s = Inr s') \<and>
     (player s = None \<longrightarrow> getDuration s = None \<and> validPosition seconds s = 0) \<and>
     (\<forall>p. player s = Some p \<and> buffer p = None \<longrightarrow>
        getDuration s = None \<and> validPosition seconds s = 0) \<and>
     (\<forall>p b. player s = Some p \<and> buffer p = Some b \<longrightarrow>
        getDuration s = Some (duration b) \<and>
        validPosition seconds s = max 0 (min seconds (duration b)) \<and>
        validPosition seconds s \<le> duration b)"
proof -
  have d0: "0 \<le> duration_or_0 s" using assms by (rule duration_or_0_nonneg)
  have 1: "0 \<le> validPosition seconds s" "validPosition seconds s \<le> duration_or_0 s"
    using d0 by (simp_all add: validPosition_def)
  have 2: "0 \<le> seconds \<and> seconds \<le> duration_or_0 s \<longrightarrow> validPosition seconds s = seconds"
    by (simp add: validPosition_def)
  have 3: "seconds < 0 \<longrightarrow> validPosition seconds s = 0"
    using d0 by (simp add: validPosition_def)
  have 4: "duration_or_0 s < seconds \<longrightarrow> validPosition seconds s = duration_or_0 s"
    using d0 by (simp add: validPosition_def)
  have 5: "getDuration s = None \<longrightarrow> duration_or_0 s = 0"
    by (simp add: duration_or_0_def)
  have 6: "\<forall>d. getDuration s = Some d \<longrightarrow> duration_or_0 s = d"
    by (simp add: duration_or_0_def js_or_def)
  have 7: "player s = None \<longrightarrow> seekTo seek seconds s = Inr s"
    by (simp add: seekTo_def)
  have 8: "\<forall>p e. player s = Some p \<and> seek (validPosition seconds s) p = Inl e \<longrightarrow>
        seekTo seek seconds s = Inr s"
    by (simp add: seekTo_def)
  have 9: "\<forall>p p'. player s = Some p \<and> seek (validPosition seconds s) p = Inr p' \<longrightarrow>
        seekTo seek seconds s = Inr (s\<lparr>player := Some p'\<rparr>)"
    by (simp add: seekTo_def)
  have 10: "player s = None \<longrightarrow> getDuration s = None \<and> validPosition seconds s = 0"
    using duration_or_0_cases [of s] getDuration_cases [of s] by (simp add: validPosition_def)
  have 11: "\<forall>p. player s = Some p \<and> buffer p = None \<longrightarrow>
        getDuration s = None \<and> validPosition seconds s = 0"
    using duration_or_0_cases [of s] getDuration_cases [of s] by (simp add: validPosition_def)
  have 12: "\<forall>p b. player s = Some p \<and> buffer p = Some b \<longrightarrow>
        getDuration s = Some (duration b) \<and>
        validPosition seconds s = max 0 (min seconds (duration b)) \<and>
        validPosition seconds s \<le> duration b"
  proof (intro allI impI)
    fix p b assume pb: "player s = Some p \<and> buffer p = Some b"
    then have e: "duration_or_0 s = duration b" using duration_or_0_cases [of s] by blast
    from pb have g: "getDuration s = Some (duration b)" using getDuration_cases [of s] by blast
    have v: "validPosition seconds s = max 0 (min seconds (duration b))"
      using e by (simp add: validPosition_def)
    have "validPosition seconds s \<le> duration b" using 1(2) e by simp
    with g v show "getDuration s = Some (duration b) \<and>
        validPosition seconds s = max 0 (min seconds (duration b)) \<and>
        validPosition seconds s \<le> duration b" by blast
  qed
  have 13: "\<exists>s'. seekTo seek seconds s = Inr s'"
    by (rule seekTo_returns)
  show ?thesis
    by (intro conjI) (fact 1 2 3 4 5 6 7 8 9 10 11 12 13)+
qed

lemma short_service_durations:
  "\<forall>p b. player short_service = Some p \<and> buffer p = Some b \<longrightarrow> 0 \<le> duration b"
  by (simp add: short_service_def new_AudioService_def)

lemma bufferless_service_durations:
  "\<forall>p b. player bufferless_service = Some p \<and> buffer p = Some b \<longrightarrow> 0 \<le> duration b"
  by (simp add: bufferless_service_def new_AudioService_def)

theorem C10_seekTo_witness:
  "validPosition 500 file_service = 180 \<and> validPosition (- 5) file_service = 0 \<and>
   validPosition 42 file_service = 42 \<and>
   validPosition 500 short_service = 10 \<and> validPosition 42 short_service = 10 \<and>
   validPosition 500 bufferless_service = 0 \<and>
   validPosition 500 (new_AudioService (Inr bass_analyser)) = 0 \<and>
   seekTo seek_throws 500 file_service = Inr file_service \<and>
   seekTo seek_moves 500 file_service =
     Inr (file_service\<lparr>player := Some \<lparr>buffer = Some \<lparr>duration = 180\<rparr>, offset = 180\<rparr>\<rparr>) \<and>
   seekTo seek_moves 500 (new_AudioService (Inr bass_analyser)) = Inr (new_AudioService (Inr bass_analyser))"
proof -
  have p: "player file_service = Some \<lparr>buffer = Some \<lparr>duration = 180\<rparr>, offset = 0\<rparr>"
    by (simp add: file_service_def new_AudioService_def)
  have ps: "player short_service = Some \<lparr>buffer = Some \<lparr>duration = 10\<rparr>, offset = 0\<rparr>"
    by (simp add: short_service_def new_AudioService_def)
  have pn: "player bufferless_service = Some \<lparr>buffer = None, offset = 0\<rparr>"
    by (simp add: bufferless_service_def new_AudioService_def)
  have n: "\<forall>p b. player (new_AudioService (Inr bass_analyser)) = Some p \<and> buffer p = Some b \<longrightarrow> 0 \<le> duration b"
    by (simp add: new_AudioService_def)
  have pnone: "player (new_AudioService (Inr bass_analyser)) = None"
    by (simp add: new_AudioService_def)
  have v1: "validPosition 500 file_service = 180"
  proof -
    from C10_seekTo [OF file_service_durations, of 500 seek_moves]
    have "\<forall>p b. player file_service = Some p \<and> buffer p = Some b \<longrightarrow>
        getDuration file_service = Some (duration b) \<and>
        validPosition 500 file_service = max 0 (min 500 (duration b)) \<and>
        validPosition 500 file_service \<le> duration b"
      by (elim conjE)
    then have "validPosition 500 file_service = max 0 (min 500 (duration \<lparr>duration = 180\<rparr>))"
      using p by (elim allE [of _ "\<lparr>buffer = Some \<lparr>duration = 180\<rparr>, offset = 0\<rparr>"]
          allE [of _ "\<lparr>duration = 180\<rparr>"]) simp
    then show ?thesis by simp
  qed
  have v2: "validPosition (- 5) file_service = 0"
  proof -
    from C10_seekTo [OF file_service_durations, of "- 5" seek_moves]
    have "- 5 < (0::real) \<longrightarrow> validPosition (- 5) file_service = 0"
      by (elim conjE)
    then show ?thesis by simp
  qed
  have v3: "validPosition 42 file_service = 42"
  proof -
    from C10_seekTo [OF file_service_durations, of 42 seek_moves]
    have "\<forall>p b. player file_service = Some p \<and> buffer p = Some b \<longrightarrow>
        getDuration file_service = Some (duration b) \<and>
        validPosition 42 file_service = max 0 (min 42 (duration b)) \<and>
        validPosition 42 file_service \<le> duration b"
      by (elim conjE)
    then have "validPosition 42 file_service = max 0 (min 42 (duration \<lparr>duration = 180\<rparr>))"
      using p by (elim allE [of _ "\<lparr>buffer = Some \<lparr>duration = 180\<rparr>, offset = 0\<rparr>"]
          allE [of _ "\<lparr>duration = 180\<rparr>"]) simp
    then show ?thesis by simp
  qed
  have v4: "validPosition 500 short_service = 10"
  proof -
    from C10_seekTo [OF short_service_durations, of 500 seek_moves]
    have "\<forall>p b. player short_service = Some p \<and> buffer p = Some b \<longrightarrow>
        getDuration short_service = Some (duration b) \<and>
        validPosition 500 short_service = max 0 (min 500 (duration b)) \<and>
        validPosition 500 short_service \<le> duration b"
      by (elim conjE)
    then have "validPosition 500 short_service = max 0 (min 500 (duration \<lparr>duration = 10\<rparr>))"
      using ps by (elim allE [of _ "\<lparr>buffer = Some \<lparr>duration = 10\<rparr>, offset = 0\<rparr>"]
          allE [of _ "\<lparr>duration = 10\<rparr>"]) simp
    then show ?thesis by simp
  qed
  have v5: "validPosition 42 short_service = 10"
  proof -
    from C10_seekTo [OF short_service_durations, of 42 seek_moves]
    have "\<forall>p b. player short_service = Some p \<and> buffer p = Some b \<longrightarrow>
        getDuration short_service = Some (duration b) \<and>
        validPosition 42 short_service = max 0 (min 42 (duration b)) \<and>
        validPosition 42 short_service \<le> duration b"
      by (elim conjE)
    then have "validPosition 42 short_service = max 0 (min 42 (duration \<lparr>duration = 10\<rparr>))"
      using ps by (elim allE [of _ "\<lparr>buffer = Some \<lparr>duration = 10\<rparr>, offset = 0\<rparr>"]
          allE [of _ "\<lparr>duration = 10\<rparr>"]) simp
    then show ?thesis by simp
  qed
  have v6: "validPosition 500 bufferless_service = 0"
  proof -
    from C10_seekTo [OF bufferless_service_durations, of 500 seek_moves]
    have "\<forall>p. player bufferless_service = Some p \<and> buffer p = None \<longrightarrow>
        getDuration bufferless_service = None \<and> validPosition 500 bufferless_service = 0"
      by (elim conjE)
    then show ?thesis
      using pn by (elim allE [of _ "\<lparr>buffer = None, offset = 0\<rparr>"]) simp
  qed
  have v7: "validPosition 500 (new_AudioService (Inr bass_analyser)) = 0"
  proof -
    from C10_seekTo [OF n, of 500 seek_moves]
    have "player (new_AudioService (Inr bass_analyser)) = None \<longrightarrow>
        getDuration (new_AudioService (Inr bass_analyser)) = None \<and>
        validPosition 500 (new_AudioService (Inr bass_analyser)) = 0"
      by (elim conjE)
    then show ?thesis using pnone by simp
  qed
  have s1: "seekTo seek_throws 500 file_service = Inr file_service"
  proof -
    from C10_seekTo [OF file_service_durations, of 500 seek_throws]
    have "\<forall>p e. player file_service = Some p \<and>
        seek_throws (validPosition 500 file_service) p = Inl e \<longrightarrow>
        seekTo seek_throws 500 file_service = Inr file_service"
      by (elim conjE)
    then show ?thesis
      using p by (elim allE [of _ "\<lparr>buffer = Some \<lparr>duration = 180\<rparr>, offset = 0\<rparr>"]
          allE [of _ "JsError ''buffer is not loaded''"]) (simp add: seek_throws_def)
  qed
  have s2: "seekTo seek_moves 500 file_service =
     Inr (file_service\<lparr>player := Some \<lparr>buffer = Some \<lparr>duration = 180\<rparr>, offset = 180\<rparr>\<rparr>)"
  proof -
    from C10_seekTo [OF file_service_durations, of 500 seek_moves]
    have "\<forall>p p'. player file_service = Some p \<and>
        seek_moves (validPosition 500 file_service) p = Inr p' \<longrightarrow>
        seekTo seek_moves 500 file_service = Inr (file_service\<lparr>player := Some p'\<rparr>)"
      by (elim conjE)
    then show ?thesis
      using p v1 by (elim allE [of _ "\<lparr>buffer = Some \<lparr>duration = 180\<rparr>, offset = 0\<rparr>"]
          allE [of _ "\<lparr>buffer = Some \<lparr>duration = 180\<rparr>, offset = 180\<rparr>"]) (simp add: seek_moves_def)
  qed
  have s3: "seekTo seek_moves 500 (new_AudioService (Inr bass_analyser)) = Inr (new_AudioService (Inr bass_analyser))"
  proof -
    from C10_seekTo [OF n, of 500 seek_moves]
    have "player (new_AudioService (Inr bass_analyser)) = None \<longrightarrow>
        seekTo seek_moves 500 (new_AudioService (Inr bass_analyser)) =
          Inr (new_AudioService (Inr bass_analyser))"
      by (elim conjE)
    then show ?thesis using pnone by simp
  qed
  show ?thesis
    by (intro conjI) (fact v1 v2 v3 v4 v5 v6 v7 s1 s2 s3)+
qed

end
